theory Spec2Isabelle
  imports Main "HOL-Library.Multiset"
begin

section \<open>JavaScript strings\<close>

text \<open>
  Strings are modelled as lists of 8-bit characters (Latin-1); code units above 255 are
  outside the model. The character classes below are the ones written in the regular
  expressions of the route handlers.
\<close>

definition is_lower_alnum :: "char \<Rightarrow> bool" where
  \<comment> \<open>the class \<^verbatim>\<open>[a-z0-9]\<close>\<close>
  "is_lower_alnum c =
     (let n = (of_char c :: nat) in (97 \<le> n \<and> n \<le> 122) \<or> (48 \<le> n \<and> n \<le> 57))"

definition toLowerCase_char :: "char \<Rightarrow> char" where
  \<comment> \<open>A-Z and the Latin-1 capitals (all of 0xC0..0xDE but the multiplication sign)\<close>
  "toLowerCase_char c =
     (let n = (of_char c :: nat)
      in if (65 \<le> n \<and> n \<le> 90) \<or> (192 \<le> n \<and> n \<le> 222 \<and> n \<noteq> 215)
         then char_of (n + 32) else c)"

definition toLowerCase :: "string \<Rightarrow> string" where
  "toLowerCase s = map toLowerCase_char s"

function replace_non_alnum_runs :: "string \<Rightarrow> string" where
  \<comment> \<open>\<^verbatim>\<open>.replace(/[^a-z0-9]+/g, '-')\<close>: every maximal run becomes one dash\<close>
  "replace_non_alnum_runs [] = []"
| "replace_non_alnum_runs (c # cs) =
     (if is_lower_alnum c then c # replace_non_alnum_runs cs
      else CHR ''-'' # replace_non_alnum_runs (dropWhile (\<lambda>d. \<not> is_lower_alnum d) cs))"
  by pat_completeness auto
termination
  by (relation "measure length") (auto simp: le_imp_less_Suc length_dropWhile_le)

definition strip_edge_dashes :: "string \<Rightarrow> string" where
  \<comment> \<open>\<^verbatim>\<open>.replace(/(^-|-$)/g, '')\<close>: one dash at index 0, then one dash at the last index
      of what follows\<close>
  "strip_edge_dashes s =
     (let s1 = (case s of [] \<Rightarrow> [] | c # cs \<Rightarrow> if c = CHR ''-'' then cs else c # cs)
      in if s1 \<noteq> [] \<and> last s1 = CHR ''-'' then butlast s1 else s1)"

definition slugify :: "string \<Rightarrow> string" where
  \<comment> \<open>\<^verbatim>\<open>title.toLowerCase().replace(/[^a-z0-9]+/g, '-').replace(/(^-|-$)/g, '')\<close>\<close>
  "slugify t = strip_edge_dashes (replace_non_alnum_runs (toLowerCase t))"

definition slug_char :: "char \<Rightarrow> bool" where
  "slug_char c = (is_lower_alnum c \<or> c = CHR ''-'')"

fun single_seps :: "string \<Rightarrow> bool" where
  "single_seps (a # b # r) = (\<not> (a = CHR ''-'' \<and> b = CHR ''-'') \<and> single_seps (b # r))"
| "single_seps _ = True"

fun starts_with_dash :: "string \<Rightarrow> bool" where
  "starts_with_dash [] = False"
| "starts_with_dash (c # cs) = (c = CHR ''-'')"

definition ends_with_dash :: "string \<Rightarrow> bool" where
  "ends_with_dash s = (s \<noteq> [] \<and> last s = CHR ''-'')"

definition well_formed_slug :: "string \<Rightarrow> bool" where
  "well_formed_slug s =
     (list_all slug_char s \<and> single_seps s \<and> \<not> starts_with_dash s \<and> \<not> ends_with_dash s)"

definition is_js_space :: "char \<Rightarrow> bool" where
  \<comment> \<open>white space and line terminators removed by \<^verbatim>\<open>trim()\<close>, among the 8-bit characters\<close>
  "is_js_space c = (of_char c \<in> {9, 10, 11, 12, 13, 32, 160 :: nat})"

definition trim :: "string \<Rightarrow> string" where
  "trim s = rev (dropWhile is_js_space (rev (dropWhile is_js_space s)))"

definition digit_char :: "nat \<Rightarrow> char" where
  "digit_char d = char_of (48 + d)"

function string_of_nat :: "nat \<Rightarrow> string" where
  \<comment> \<open>the decimal rendering of a template literal \<^verbatim>\<open>${n}\<close>\<close>
  "string_of_nat n =
     (if n < 10 then [digit_char n] else string_of_nat (n div 10) @ [digit_char (n mod 10)])"
  by pat_completeness auto
termination
  by (relation "measure id") auto

definition startsWith :: "string \<Rightarrow> string \<Rightarrow> bool" where
  "startsWith s p = (take (length p) s = p)"

section \<open>Extraction of a storage key from a video URL\<close>

text \<open>
  \<^verbatim>\<open>url.match(pattern)\<close> without the \<^verbatim>\<open>g\<close> flag tries the pattern at every index from the
  left and returns the first success; \<open>regex_search\<close> does that for a matcher anchored at
  the head of its argument. Each matcher below returns capture group 1 of one pattern.
\<close>

fun regex_search :: "(string \<Rightarrow> string option) \<Rightarrow> string \<Rightarrow> string option" where
  "regex_search m [] = m []"
| "regex_search m (c # cs) =
     (case m (c # cs) of Some k \<Rightarrow> Some k | None \<Rightarrow> regex_search m cs)"

fun strip_prefix :: "string \<Rightarrow> string \<Rightarrow> string option" where
  \<comment> \<open>a run of literal characters\<close>
  "strip_prefix [] s = Some s"
| "strip_prefix (p # ps) [] = None"
| "strip_prefix (p # ps) (c # cs) = (if p = c then strip_prefix ps cs else None)"

definition key_char :: "char \<Rightarrow> bool" where
  \<comment> \<open>the class \<^verbatim>\<open>[^/?#]\<close>\<close>
  "key_char c = (c \<noteq> CHR ''/'' \<and> c \<noteq> CHR ''?'' \<and> c \<noteq> CHR ''#'')"

definition key_char_q :: "char \<Rightarrow> bool" where
  \<comment> \<open>the class \<^verbatim>\<open>[^/?]\<close>\<close>
  "key_char_q c = (c \<noteq> CHR ''/'' \<and> c \<noteq> CHR ''?'')"

definition non_slash :: "char \<Rightarrow> bool" where
  \<comment> \<open>the class \<^verbatim>\<open>[^/]\<close>\<close>
  "non_slash c = (c \<noteq> CHR ''/'')"

definition line_terminator :: "char \<Rightarrow> bool" where
  \<comment> \<open>what \<^verbatim>\<open>.\<close> does not match, among the 8-bit characters\<close>
  "line_terminator c = (of_char c \<in> {10, 13 :: nat})"

definition capture_run :: "(char \<Rightarrow> bool) \<Rightarrow> string \<Rightarrow> string option" where
  \<comment> \<open>a greedy \<^verbatim>\<open>(C+)\<close> that ends its pattern: the longest run, which must not be empty\<close>
  "capture_run cls s = (let k = takeWhile cls s in if k = [] then None else Some k)"

definition segment_then :: "(string \<Rightarrow> string option) \<Rightarrow> string \<Rightarrow> string option" where
  \<comment> \<open>\<^verbatim>\<open>[^/]+\/\<close> followed by the rest of the pattern: only the longest run can be
      followed by a slash\<close>
  "segment_then k s =
     (let seg = takeWhile non_slash s; r = dropWhile non_slash s
      in if seg = [] then None
         else (case strip_prefix ''/'' r of None \<Rightarrow> None | Some r2 \<Rightarrow> k r2))"

definition key_to_end :: "string \<Rightarrow> string option" where
  \<comment> \<open>\<^verbatim>\<open>([^/?#]+)$\<close>: the run has to reach the end of the input\<close>
  "key_to_end s = (if s \<noteq> [] \<and> list_all key_char s then Some s else None)"

fun lazy_any_then_slash_key_end :: "string \<Rightarrow> string option" where
  \<comment> \<open>\<^verbatim>\<open>.*?\/([^/?#]+)$\<close>: the lazy star first tries to stop, then takes one more
      character that is not a line terminator\<close>
  "lazy_any_then_slash_key_end [] = None"
| "lazy_any_then_slash_key_end (c # cs) =
     (case (if c = CHR ''/'' then key_to_end cs else None) of
        Some k \<Rightarrow> Some k
      | None \<Rightarrow> if line_terminator c then None else lazy_any_then_slash_key_end cs)"

definition pat_f :: "string \<Rightarrow> string option" where
  \<comment> \<open>\<^verbatim>\<open>/\/f\/([^/?#]+)/\<close>\<close>
  "pat_f s = (case strip_prefix ''/f/'' s of None \<Rightarrow> None | Some r \<Rightarrow> capture_run key_char r)"

definition pat_f_q :: "string \<Rightarrow> string option" where
  \<comment> \<open>\<^verbatim>\<open>/\/f\/([^/?]+)/\<close>\<close>
  "pat_f_q s =
     (case strip_prefix ''/f/'' s of None \<Rightarrow> None | Some r \<Rightarrow> capture_run key_char_q r)"

definition pat_a :: "string \<Rightarrow> string option" where
  \<comment> \<open>\<^verbatim>\<open>/\/a\/[^/]+\/([^/?#]+)/\<close>\<close>
  "pat_a s =
     (case strip_prefix ''/a/'' s of None \<Rightarrow> None
      | Some r \<Rightarrow> segment_then (capture_run key_char) r)"

definition pat_uploadthing :: "string \<Rightarrow> string option" where
  \<comment> \<open>\<^verbatim>\<open>/uploadthing.*?\/([^/?#]+)$/\<close>\<close>
  "pat_uploadthing s =
     (case strip_prefix ''uploadthing'' s of None \<Rightarrow> None
      | Some r \<Rightarrow> lazy_any_then_slash_key_end r)"

definition pat_utfs_af :: "string \<Rightarrow> string option" where
  \<comment> \<open>\<^verbatim>\<open>/utfs\.io\/[af]\/(?:[^/]+\/)?([^/?#]+)/\<close>: the optional group is tried first\<close>
  "pat_utfs_af s =
     (case strip_prefix ''utfs.io/'' s of
        None \<Rightarrow> None
      | Some [] \<Rightarrow> None
      | Some (c # r) \<Rightarrow>
          if c = CHR ''a'' \<or> c = CHR ''f'' then
            (case strip_prefix ''/'' r of
               None \<Rightarrow> None
             | Some r2 \<Rightarrow>
                 (case segment_then (capture_run key_char) r2 of
                    Some k \<Rightarrow> Some k
                  | None \<Rightarrow> capture_run key_char r2))
          else None)"

definition pat_utfs_f :: "string \<Rightarrow> string option" where
  \<comment> \<open>\<^verbatim>\<open>/utfs\.io\/f\/([^/?#]+)/\<close>\<close>
  "pat_utfs_f s =
     (case strip_prefix ''utfs.io/f/'' s of None \<Rightarrow> None | Some r \<Rightarrow> capture_run key_char r)"

fun first_match :: "(string \<Rightarrow> string option) list \<Rightarrow> string \<Rightarrow> string option" where
  \<comment> \<open>the \<^verbatim>\<open>for (const pattern of patterns)\<close> loop with its \<^verbatim>\<open>break\<close>\<close>
  "first_match [] url = None"
| "first_match (p # ps) url =
     (case regex_search p url of Some k \<Rightarrow> Some k | None \<Rightarrow> first_match ps url)"

definition put_patterns :: "(string \<Rightarrow> string option) list" where
  "put_patterns = [pat_f, pat_a, pat_uploadthing, pat_utfs_af]"

definition delete_patterns :: "(string \<Rightarrow> string option) list" where
  "delete_patterns = [pat_f, pat_uploadthing, pat_utfs_f]"

definition video_key_put :: "string \<Rightarrow> string option" where
  "video_key_put url = first_match put_patterns url"

definition video_key_delete :: "string \<Rightarrow> string option" where
  "video_key_delete url = first_match delete_patterns url"

section \<open>The database\<close>

text \<open>
  The tables the route handlers read and write. Rows are kept in insertion order; the
  counters give the next auto-incremented id of each table.
\<close>

record gallery_image =
  img_id :: int
  img_category :: string
  img_url :: string
  img_publicId :: "string option"
  img_caption :: "string option"
  img_categoryId :: "int option"

record price_row =
  price_id :: int
  price_categoryId :: int
  price_hourlyHours :: int
  price_rateCents :: int
  price_label :: "string option"

record hotel_category =
  cat_id :: int
  cat_slug :: string
  cat_title :: string
  cat_description :: string
  cat_specs :: "(string \<times> bool) list"
  cat_essentialAmenities :: "string list"
  cat_roomCount :: int
  cat_videoUrl :: "string option"

record database =
  categories :: "hotel_category list"
  images :: "gallery_image list"
  prices :: "price_row list"
  next_category_id :: int
  next_image_id :: int
  next_price_id :: int

record media_desc =
  d_url :: string
  d_publicId :: string

record price_input =
  pi_hourlyHours :: int
  pi_rateCents :: int
  pi_label :: "string option"

record category_patch =
  cp_slug :: "string option"
  cp_title :: "string option"
  cp_description :: "string option"
  cp_specs :: "(string \<times> bool) list option"
  cp_essentialAmenities :: "string list option"
  cp_roomCount :: "int option"
  cp_videoUrl :: "string option"

record gallery_meta =
  gm_category :: string
  gm_caption :: "string option"
  gm_categoryId :: "int option"

definition findUnique_category :: "database \<Rightarrow> int \<Rightarrow> hotel_category option" where
  "findUnique_category db i = find (\<lambda>c. cat_id c = i) (categories db)"

definition findUnique_image :: "database \<Rightarrow> int \<Rightarrow> gallery_image option" where
  "findUnique_image db i = find (\<lambda>g. img_id g = i) (images db)"

definition images_of :: "database \<Rightarrow> int \<Rightarrow> gallery_image list" where
  \<comment> \<open>\<^verbatim>\<open>include: { images: true }\<close>\<close>
  "images_of db i = filter (\<lambda>g. img_categoryId g = Some i) (images db)"

definition prices_of :: "database \<Rightarrow> int \<Rightarrow> price_row list" where
  "prices_of db i = filter (\<lambda>p. price_categoryId p = i) (prices db)"

definition prices_by_hours :: "database \<Rightarrow> int \<Rightarrow> price_row list" where
  \<comment> \<open>\<^verbatim>\<open>include: { prices: { orderBy: { hourlyHours: 'asc' } } }\<close>\<close>
  "prices_by_hours db i = sort_key price_hourlyHours (prices_of db i)"

definition slug_in_use :: "database \<Rightarrow> string \<Rightarrow> int option \<Rightarrow> bool" where
  \<comment> \<open>Modelled from the spec: the Prisma schema is not under src/; the spec gives the
      category slug a unique constraint.\<close>
  "slug_in_use db s except =
     list_ex (\<lambda>c. cat_slug c = s \<and> Some (cat_id c) \<noteq> except) (categories db)"

definition image_rows :: "int \<Rightarrow> int \<Rightarrow> string \<Rightarrow> media_desc list \<Rightarrow> gallery_image list" where
  \<comment> \<open>the rows of \<^verbatim>\<open>images?.map((imageData, index) => ...)\<close>, numbered from \<open>first\<close>\<close>
  "image_rows first cid title descs =
     map (\<lambda>(k, d).
           \<lparr> img_id = first + int k, img_category = ''Rooms'', img_url = d_url d,
             img_publicId = Some (d_publicId d),
             img_caption = Some (title @ '' - Image '' @ string_of_nat (k + 1)),
             img_categoryId = Some cid \<rparr>)
         (enumerate 0 descs)"

definition create_room ::
  "database \<Rightarrow> hotel_category \<Rightarrow> media_desc list \<Rightarrow> database option" where
  \<comment> \<open>\<^verbatim>\<open>prisma.hotelCategory.create\<close> with nested image creation; \<open>None\<close> when it throws\<close>
  "create_room db c descs =
     (if slug_in_use db (cat_slug c) None then None
      else Some (db\<lparr> categories := categories db @ [c\<lparr>cat_id := next_category_id db\<rparr>],
                     images := images db
                       @ image_rows (next_image_id db) (next_category_id db) (cat_title c) descs,
                     next_category_id := next_category_id db + 1,
                     next_image_id := next_image_id db + int (length descs) \<rparr>))"

definition update_room ::
  "database \<Rightarrow> int \<Rightarrow> hotel_category \<Rightarrow> media_desc list \<Rightarrow> database option" where
  \<comment> \<open>\<^verbatim>\<open>prisma.hotelCategory.update\<close> with nested image creation; \<open>None\<close> when it throws\<close>
  "update_room db i c descs =
     (case findUnique_category db i of
        None \<Rightarrow> None
      | Some old \<Rightarrow>
          if slug_in_use db (cat_slug c) (Some i) then None
          else Some (db\<lparr> categories :=
                           map (\<lambda>r. if cat_id r = i then c\<lparr>cat_id := i\<rparr> else r) (categories db),
                         images := images db @ image_rows (next_image_id db) i (cat_title c) descs,
                         next_image_id := next_image_id db + int (length descs) \<rparr>))"

definition deleteMany_images :: "database \<Rightarrow> int \<Rightarrow> database" where
  \<comment> \<open>\<^verbatim>\<open>prisma.galleryImage.deleteMany({ where: { categoryId: id } })\<close>\<close>
  "deleteMany_images db i = db\<lparr> images := filter (\<lambda>g. img_categoryId g \<noteq> Some i) (images db) \<rparr>"

definition deleteMany_prices :: "database \<Rightarrow> int \<Rightarrow> database" where
  "deleteMany_prices db i = db\<lparr> prices := filter (\<lambda>p. price_categoryId p \<noteq> i) (prices db) \<rparr>"

definition delete_category :: "database \<Rightarrow> int \<Rightarrow> database option" where
  \<comment> \<open>Modelled from the spec: the Prisma schema is not under src/; the spec and the
      handlers' comments say that deleting a category cascades to its images and prices.\<close>
  "delete_category db i =
     (case findUnique_category db i of
        None \<Rightarrow> None
      | Some c \<Rightarrow>
          Some (db\<lparr> categories := filter (\<lambda>r. cat_id r \<noteq> i) (categories db),
                    images := filter (\<lambda>g. img_categoryId g \<noteq> Some i) (images db),
                    prices := filter (\<lambda>p. price_categoryId p \<noteq> i) (prices db) \<rparr>))"

definition apply_patch :: "category_patch \<Rightarrow> hotel_category \<Rightarrow> hotel_category" where
  "apply_patch p c =
     c\<lparr> cat_slug := (case cp_slug p of None \<Rightarrow> cat_slug c | Some v \<Rightarrow> v),
        cat_title := (case cp_title p of None \<Rightarrow> cat_title c | Some v \<Rightarrow> v),
        cat_description := (case cp_description p of None \<Rightarrow> cat_description c | Some v \<Rightarrow> v),
        cat_specs := (case cp_specs p of None \<Rightarrow> cat_specs c | Some v \<Rightarrow> v),
        cat_essentialAmenities :=
          (case cp_essentialAmenities p of None \<Rightarrow> cat_essentialAmenities c | Some v \<Rightarrow> v),
        cat_roomCount := (case cp_roomCount p of None \<Rightarrow> cat_roomCount c | Some v \<Rightarrow> v),
        cat_videoUrl := (case cp_videoUrl p of None \<Rightarrow> cat_videoUrl c | Some v \<Rightarrow> Some v) \<rparr>"

definition update_category :: "database \<Rightarrow> int \<Rightarrow> category_patch \<Rightarrow> database option" where
  \<comment> \<open>\<^verbatim>\<open>tx.hotelCategory.update({ where: { id }, data })\<close>; \<open>None\<close> when it throws\<close>
  "update_category db i p =
     (case findUnique_category db i of
        None \<Rightarrow> None
      | Some old \<Rightarrow>
          if slug_in_use db (cat_slug (apply_patch p old)) (Some i) then None
          else Some (db\<lparr> categories :=
                           map (\<lambda>r. if cat_id r = i then apply_patch p r else r) (categories db) \<rparr>))"

definition price_rows :: "int \<Rightarrow> int \<Rightarrow> price_input list \<Rightarrow> price_row list" where
  \<comment> \<open>the rows of \<^verbatim>\<open>limitedPrices.map(...)\<close>; \<^verbatim>\<open>price.label || null\<close> drops an empty label\<close>
  "price_rows first cid ps =
     map (\<lambda>(k, p).
           \<lparr> price_id = first + int k, price_categoryId = cid,
             price_hourlyHours = pi_hourlyHours p, price_rateCents = pi_rateCents p,
             price_label = (case pi_label p of None \<Rightarrow> None
                            | Some l \<Rightarrow> if l = [] then None else Some l) \<rparr>)
         (enumerate 0 ps)"

definition createMany_prices :: "database \<Rightarrow> int \<Rightarrow> price_input list \<Rightarrow> database option" where
  \<comment> \<open>\<^verbatim>\<open>tx.price.createMany\<close>; it throws when the category row is missing (foreign key)\<close>
  "createMany_prices db i ps =
     (case findUnique_category db i of
        None \<Rightarrow> None
      | Some c \<Rightarrow>
          Some (db\<lparr> prices := prices db @ price_rows (next_price_id db) i ps,
                    next_price_id := next_price_id db + int (length ps) \<rparr>))"

definition category_exists :: "database \<Rightarrow> int option \<Rightarrow> bool" where
  "category_exists db ci =
     (case ci of None \<Rightarrow> True | Some i \<Rightarrow> findUnique_category db i \<noteq> None)"

definition create_image ::
  "database \<Rightarrow> gallery_meta \<Rightarrow> string \<Rightarrow> string \<Rightarrow> (gallery_image \<times> database) option" where
  \<comment> \<open>\<^verbatim>\<open>prisma.galleryImage.create\<close>; it throws when the owning category is missing\<close>
  "create_image db m url key =
     (if category_exists db (gm_categoryId m) then
        (let g = \<lparr> img_id = next_image_id db, img_category = gm_category m, img_url = url,
                   img_publicId = Some key, img_caption = gm_caption m,
                   img_categoryId = gm_categoryId m \<rparr>
         in Some (g, db\<lparr> images := images db @ [g], next_image_id := next_image_id db + 1 \<rparr>))
      else None)"

definition patch_image ::
  "gallery_meta \<Rightarrow> (string \<times> string) option \<Rightarrow> gallery_image \<Rightarrow> gallery_image" where
  \<comment> \<open>\<^verbatim>\<open>finalUpdateData\<close>: a field that is \<^verbatim>\<open>undefined\<close> is left as it was\<close>
  "patch_image m repl g =
     g\<lparr> img_category := gm_category m,
        img_caption := (case gm_caption m of None \<Rightarrow> img_caption g | Some c \<Rightarrow> Some c),
        img_categoryId := (case gm_categoryId m of None \<Rightarrow> img_categoryId g | Some c \<Rightarrow> Some c),
        img_url := (case repl of None \<Rightarrow> img_url g | Some (u, k) \<Rightarrow> u),
        img_publicId := (case repl of None \<Rightarrow> img_publicId g | Some (u, k) \<Rightarrow> Some k) \<rparr>"

definition update_image ::
  "database \<Rightarrow> int \<Rightarrow> gallery_meta \<Rightarrow> (string \<times> string) option
   \<Rightarrow> (gallery_image \<times> database) option" where
  "update_image db i m repl =
     (case findUnique_image db i of
        None \<Rightarrow> None
      | Some g \<Rightarrow>
          if category_exists db (gm_categoryId m) then
            Some (patch_image m repl g,
                  db\<lparr> images := map (\<lambda>r. if img_id r = i then patch_image m repl r else r)
                                     (images db) \<rparr>)
          else None)"

definition delete_image :: "database \<Rightarrow> int \<Rightarrow> database option" where
  "delete_image db i =
     (case findUnique_image db i of
        None \<Rightarrow> None
      | Some g \<Rightarrow> Some (db\<lparr> images := filter (\<lambda>r. img_id r \<noteq> i) (images db) \<rparr>))"

section \<open>Responses, effects and the session guard\<close>

datatype body =
    ErrorBody string
  | MessageBody string
  | SuccessMessage string
  | RoomBody hotel_category "gallery_image list" "price_row list"
  | CategoryData "(hotel_category \<times> price_row list \<times> gallery_image list) option"
  | ImageData gallery_image

record response =
  status :: nat
  body :: body

text \<open>
  The calls a handler issues, in program order: writes to the database and calls of the
  storage service.
\<close>

datatype effect =
    DbCreateCategory
  | DbUpdateCategory int
  | DbDeleteCategory int
  | DbDeleteImages int
  | DbTransaction int
  | DbCreateImage
  | DbUpdateImage int
  | DbDeleteImage int
  | DeleteFiles "string list"
  | UploadFile string

datatype storage_result = DeleteSucceeds | DeleteReportsFailure | DeleteThrows

datatype exn = Unauthorized | OtherError

type_synonym outcome = "response \<times> database \<times> effect list"

definition reply :: "outcome \<Rightarrow> response" where
  "reply out = fst out"

definition db_after :: "outcome \<Rightarrow> database" where
  "db_after out = fst (snd out)"

definition effects :: "outcome \<Rightarrow> effect list" where
  "effects out = snd (snd out)"

fun deleted_keys :: "effect list \<Rightarrow> string list" where
  \<comment> \<open>the storage keys handed to \<^verbatim>\<open>utapi.deleteFiles\<close>\<close>
  "deleted_keys [] = []"
| "deleted_keys (DeleteFiles ks # es) = ks @ deleted_keys es"
| "deleted_keys (e # es) = deleted_keys es"

definition requireAdmin :: "bool \<Rightarrow> exn + unit" where
  \<comment> \<open>Modelled from the spec: \<^verbatim>\<open>requireAdmin\<close> of \<^verbatim>\<open>@/lib/auth\<close> is not under src/; the
      spec has it fail the whole request with an unauthorized signal when the caller has no
      valid admin session. The argument says whether the caller has one.\<close>
  "requireAdmin valid_session = (if valid_session then Inr () else Inl Unauthorized)"

definition json_error :: "nat \<Rightarrow> string \<Rightarrow> response" where
  \<comment> \<open>\<^verbatim>\<open>NextResponse.json({ error }, { status })\<close>\<close>
  "json_error st msg = \<lparr> status = st, body = ErrorBody msg \<rparr>"

definition admin_catch :: "string \<Rightarrow> exn \<Rightarrow> response" where
  \<comment> \<open>the \<^verbatim>\<open>catch\<close> block of the guarded handlers\<close>
  "admin_catch msg e =
     (case e of Unauthorized \<Rightarrow> json_error 401 ''Unauthorized'' | OtherError \<Rightarrow> json_error 500 msg)"

definition image_keys :: "gallery_image list \<Rightarrow> string list" where
  \<comment> \<open>\<^verbatim>\<open>images.forEach(image => { if (image.publicId) push(image.publicId) })\<close>\<close>
  "image_keys imgs =
     List.map_filter
       (\<lambda>g. case img_publicId g of None \<Rightarrow> None | Some k \<Rightarrow> if k = [] then None else Some k)
       imgs"

definition delete_files_call :: "string list \<Rightarrow> effect list" where
  \<comment> \<open>\<^verbatim>\<open>if (fileKeysToDelete.length > 0) utapi.deleteFiles(fileKeysToDelete)\<close>\<close>
  "delete_files_call ks = (if ks = [] then [] else [DeleteFiles ks])"

section \<open>The rooms route: POST, PUT and DELETE on \<^verbatim>\<open>/api/admin/rooms\<close>\<close>

text \<open>
  The parsed JSON body of a create or update request. An absent field is \<open>None\<close>.
  The three handlers of this route never call the session guard; their first argument,
  which says whether the caller has a valid admin session, is there to state that.
\<close>

record room_payload =
  rp_id :: "int option"
  rp_title :: "string option"
  rp_description :: "string option"
  rp_specs :: "(string \<times> bool) list option"
  rp_essentialAmenities :: "string list option"
  rp_roomCount :: "int option"
  rp_images :: "media_desc list option"
  rp_videos :: "media_desc list option"

datatype id_param = IdMissing | IdNaN | IdInt int

definition submitted_images :: "room_payload \<Rightarrow> media_desc list" where
  \<comment> \<open>\<^verbatim>\<open>images || []\<close>\<close>
  "submitted_images data = (case rp_images data of None \<Rightarrow> [] | Some xs \<Rightarrow> xs)"

definition newVideoUrl :: "room_payload \<Rightarrow> string option" where
  \<comment> \<open>\<^verbatim>\<open>videos && videos.length > 0 ? videos[0].url : null\<close>\<close>
  "newVideoUrl data = (case rp_videos data of Some (v # vs) \<Rightarrow> Some (d_url v) | _ \<Rightarrow> None)"

definition room_data ::
  "string \<Rightarrow> string \<Rightarrow> room_payload \<Rightarrow> (string \<times> bool) list \<Rightarrow> hotel_category" where
  \<comment> \<open>the \<^verbatim>\<open>data\<close> object of create and update; the id is set by the database. A body
      without \<^verbatim>\<open>specs\<close> passes \<^verbatim>\<open>undefined\<close>, for which an update keeps the stored
      value, given as the last argument.\<close>
  "room_data slug title data stored_specs =
     \<lparr> cat_id = 0, cat_slug = slug, cat_title = title,
       cat_description = (case rp_description data of None \<Rightarrow> [] | Some d \<Rightarrow> d),
       cat_specs = (case rp_specs data of None \<Rightarrow> stored_specs | Some sp \<Rightarrow> sp),
       cat_essentialAmenities = (case rp_essentialAmenities data of None \<Rightarrow> [] | Some a \<Rightarrow> a),
       cat_roomCount = (case rp_roomCount data of None \<Rightarrow> 0 | Some n \<Rightarrow> n),
       cat_videoUrl = newVideoUrl data \<rparr>"

definition room_body :: "database \<Rightarrow> int \<Rightarrow> body" where
  \<comment> \<open>the written row with \<^verbatim>\<open>include: { images: true, prices: true }\<close>\<close>
  "room_body db i =
     (case findUnique_category db i of
        None \<Rightarrow> ErrorBody []
      | Some c \<Rightarrow> RoomBody c (images_of db i) (prices_of db i))"

definition rooms_POST :: "bool \<Rightarrow> room_payload option \<Rightarrow> database \<Rightarrow> outcome" where
  \<comment> \<open>Modelled from the spec: the Prisma schema is not under src/; the spec does not list
      \<^verbatim>\<open>specs\<close> among the optional attributes of a category, so a create without it
      throws.\<close>
  "rooms_POST valid_session req db =
     (case req of
        None \<Rightarrow> (json_error 500 ''Failed to create room'', db, [])
      | Some data \<Rightarrow>
          (case rp_title data of
             None \<Rightarrow> (json_error 500 ''Failed to create room'', db, [])
           | Some title \<Rightarrow>
               (let slug = slugify title in
                case (if rp_specs data = None then None
                      else create_room db (room_data slug title data []) (submitted_images data)) of
                  None \<Rightarrow> (json_error 500 ''Failed to create room'', db, [DbCreateCategory])
                | Some db' \<Rightarrow>
                    (\<lparr> status = 201, body = room_body db' (next_category_id db) \<rparr>, db',
                     [DbCreateCategory]))))"

definition stale_image_keys :: "gallery_image list \<Rightarrow> string list \<Rightarrow> string list" where
  \<comment> \<open>\<^verbatim>\<open>if (image.publicId && !newImageKeys.has(image.publicId)) push(image.publicId)\<close>\<close>
  "stale_image_keys existing newImageKeys =
     filter (\<lambda>k. k \<notin> set newImageKeys) (image_keys existing)"

definition old_video_keys_put :: "string option \<Rightarrow> string option \<Rightarrow> string list" where
  \<comment> \<open>the video part of \<^verbatim>\<open>fileKeysToDelete\<close> in PUT\<close>
  "old_video_keys_put stored new =
     (case stored of
        None \<Rightarrow> []
      | Some u \<Rightarrow>
          if u \<noteq> [] \<and> trim u \<noteq> [] then
            (if Some u = new then []
             else (case video_key_put u of Some k \<Rightarrow> [k] | None \<Rightarrow> []))
          else [])"

definition put_fileKeysToDelete ::
  "gallery_image list \<Rightarrow> string option \<Rightarrow> room_payload \<Rightarrow> string list" where
  \<comment> \<open>from the loaded room's images and stored video URL, and the payload\<close>
  "put_fileKeysToDelete existing_images stored_video data =
     stale_image_keys existing_images (map d_publicId (submitted_images data))
     @ old_video_keys_put stored_video (newVideoUrl data)"

definition rooms_PUT ::
  "bool \<Rightarrow> storage_result \<Rightarrow> room_payload option \<Rightarrow> database \<Rightarrow> outcome" where
  "rooms_PUT valid_session storage req db =
     (case req of
        None \<Rightarrow> (json_error 500 ''Failed to update room'', db, [])
      | Some data \<Rightarrow>
          (case rp_id data of
             None \<Rightarrow> (json_error 400 ''Room ID is required'', db, [])
           | Some i \<Rightarrow>
               if i = 0 then (json_error 400 ''Room ID is required'', db, [])
               else
                 (case rp_title data of
                    None \<Rightarrow> (json_error 500 ''Failed to update room'', db, [])
                  | Some title \<Rightarrow>
                      (let slug = slugify title in
                       case findUnique_category db i of
                         None \<Rightarrow> (json_error 404 ''Room not found'', db, [])
                       | Some existingRoom \<Rightarrow>
                           (let fileKeysToDelete =
                                  put_fileKeysToDelete (images_of db i) (cat_videoUrl existingRoom) data;
                                log = delete_files_call fileKeysToDelete
                                      @ [DbDeleteImages i, DbUpdateCategory i];
                                db1 = deleteMany_images db i
                            in case update_room db1 i
                                      (room_data slug title data (cat_specs existingRoom))
                                      (submitted_images data) of
                                 None \<Rightarrow> (json_error 500 ''Failed to update room'', db1, log)
                               | Some db2 \<Rightarrow>
                                   (\<lparr> status = 200, body = room_body db2 i \<rparr>, db2, log))))))"

definition old_video_keys_delete :: "string option \<Rightarrow> string list" where
  \<comment> \<open>the video part of \<^verbatim>\<open>fileKeysToDelete\<close> in DELETE\<close>
  "old_video_keys_delete stored =
     (case stored of
        None \<Rightarrow> []
      | Some u \<Rightarrow>
          if u \<noteq> [] \<and> trim u \<noteq> [] then
            (case video_key_delete u of Some k \<Rightarrow> [k] | None \<Rightarrow> [])
          else [])"

definition rooms_DELETE :: "bool \<Rightarrow> storage_result \<Rightarrow> id_param \<Rightarrow> database \<Rightarrow> outcome" where
  \<comment> \<open>The query parameter is \<open>IdMissing\<close> when it is absent or empty, \<open>IdNaN\<close> when
      \<^verbatim>\<open>parseInt\<close> gives no number. The loaded row has no \<^verbatim>\<open>videos\<close> relation, so that
      branch adds no key.\<close>
  "rooms_DELETE valid_session storage idp db =
     (case idp of
        IdMissing \<Rightarrow> (json_error 400 ''Room ID is required'', db, [])
      | IdNaN \<Rightarrow> (json_error 500 ''Failed to delete room'', db, [])
      | IdInt i \<Rightarrow>
          (case findUnique_category db i of
             None \<Rightarrow> (json_error 404 ''Room not found'', db, [])
           | Some existingRoom \<Rightarrow>
               (let fileKeysToDelete =
                      image_keys (images_of db i) @ old_video_keys_delete (cat_videoUrl existingRoom);
                    log = delete_files_call fileKeysToDelete @ [DbDeleteCategory i]
                in case delete_category db i of
                     None \<Rightarrow> (json_error 500 ''Failed to delete room'', db, log)
                   | Some db' \<Rightarrow>
                       (\<lparr> status = 200, body = MessageBody ''Room deleted successfully'' \<rparr>,
                        db', log))))"

section \<open>The category route: PUT and DELETE on \<^verbatim>\<open>/api/admin/categories/[id]\<close>\<close>

datatype jval = JNull | JBool bool | JNum int | JStr string | JArr "jval list" | JObj "(string \<times> jval) list"

datatype prices_field = PricesAbsent | PricesNotArray | PricesArray "price_input list"

text \<open>
  The parsed body of an update: the \<^verbatim>\<open>prices\<close> member and the remaining members.
  The route parameter is given as the result of \<^verbatim>\<open>parseInt\<close>, \<open>None\<close> for \<^verbatim>\<open>NaN\<close>.
  \<^verbatim>\<open>categoryUpdateSchema\<close> of \<^verbatim>\<open>@/lib/validators\<close> is not under src/ and is a parameter:
  it returns the validated fields, or \<open>None\<close> when \<^verbatim>\<open>parse\<close> throws.
\<close>

record category_body =
  cb_prices :: prices_field
  cb_categoryData :: "(string \<times> jval) list"

definition keep_entry :: "jval \<Rightarrow> bool" where
  \<comment> \<open>the filter that builds \<^verbatim>\<open>cleanCategoryData\<close>\<close>
  "keep_entry v =
     (case v of
        JNull \<Rightarrow> False
      | JObj kvs \<Rightarrow> kvs \<noteq> []
      | JArr xs \<Rightarrow> xs \<noteq> []
      | JStr s \<Rightarrow> trim s \<noteq> []
      | _ \<Rightarrow> True)"

definition cleanCategoryData :: "(string \<times> jval) list \<Rightarrow> (string \<times> jval) list" where
  "cleanCategoryData kvs = filter (\<lambda>(k, v). keep_entry v) kvs"

definition replace_prices :: "database \<Rightarrow> int \<Rightarrow> price_input list \<Rightarrow> database option" where
  \<comment> \<open>delete the category's prices, then create the first four submitted\<close>
  "replace_prices db i ps =
     (let db1 = deleteMany_prices db i;
          limitedPrices = take 4 ps
      in if limitedPrices = [] then Some db1 else createMany_prices db1 i limitedPrices)"

definition category_transaction ::
  "int \<Rightarrow> category_patch option \<Rightarrow> prices_field \<Rightarrow> database \<Rightarrow> database option" where
  \<comment> \<open>the body of \<^verbatim>\<open>prisma.$transaction\<close>; \<open>None\<close> when a step throws and the
      transaction is rolled back\<close>
  "category_transaction i validatedCategoryData body_prices db =
     (case (case validatedCategoryData of
              None \<Rightarrow> Some db
            | Some p \<Rightarrow> update_category db i p) of
        None \<Rightarrow> None
      | Some db1 \<Rightarrow>
          (case body_prices of
             PricesArray ps \<Rightarrow> replace_prices db1 i ps
           | _ \<Rightarrow> Some db1))"

definition category_result ::
  "database \<Rightarrow> int \<Rightarrow> (hotel_category \<times> price_row list \<times> gallery_image list) option" where
  \<comment> \<open>\<^verbatim>\<open>findUnique\<close> with prices ordered by \<^verbatim>\<open>hourlyHours\<close> ascending, and images\<close>
  "category_result db i =
     (case findUnique_category db i of
        None \<Rightarrow> None
      | Some c \<Rightarrow> Some (c, prices_by_hours db i, images_of db i))"

definition categories_PUT ::
  "((string \<times> jval) list \<Rightarrow> category_patch option) \<Rightarrow> bool \<Rightarrow> int option
   \<Rightarrow> category_body option \<Rightarrow> database \<Rightarrow> outcome" where
  "categories_PUT categoryUpdateSchema valid_session idp req db =
     (case requireAdmin valid_session of
        Inl e \<Rightarrow> (admin_catch ''Failed to update category'' e, db, [])
      | Inr u \<Rightarrow>
          (case req of
             None \<Rightarrow> (admin_catch ''Failed to update category'' OtherError, db, [])
           | Some b \<Rightarrow>
               (let clean = cleanCategoryData (cb_categoryData b);
                    parsed = (if clean \<noteq> [] then categoryUpdateSchema clean else None)
                in if clean \<noteq> [] \<and> parsed = None
                   then (admin_catch ''Failed to update category'' OtherError, db, [])
                   else
                     (case idp of
                        None \<Rightarrow> (admin_catch ''Failed to update category'' OtherError, db, [])
                      | Some i \<Rightarrow>
                          (case category_transaction i parsed (cb_prices b) db of
                             None \<Rightarrow>
                               (admin_catch ''Failed to update category'' OtherError, db,
                                [DbTransaction i])
                           | Some db' \<Rightarrow>
                               (\<lparr> status = 200, body = CategoryData (category_result db' i) \<rparr>,
                                db', [DbTransaction i]))))))"

definition category_video_keys :: "string option \<Rightarrow> string list" where
  \<comment> \<open>\<^verbatim>\<open>if (videoUrl) { m = videoUrl.match(/\/f\/([^/?]+)/); if (m && m[1]) push(m[1]) }\<close>\<close>
  "category_video_keys stored =
     (case stored of
        None \<Rightarrow> []
      | Some u \<Rightarrow>
          if u \<noteq> [] then (case regex_search pat_f_q u of Some k \<Rightarrow> [k] | None \<Rightarrow> [])
          else [])"

definition categories_DELETE ::
  "bool \<Rightarrow> storage_result \<Rightarrow> int option \<Rightarrow> database \<Rightarrow> outcome" where
  \<comment> \<open>the storage call is issued after the database deletion and not awaited; a rejection
      is caught and logged\<close>
  "categories_DELETE valid_session storage idp db =
     (case requireAdmin valid_session of
        Inl e \<Rightarrow> (admin_catch ''Failed to delete category'' e, db, [])
      | Inr u \<Rightarrow>
          (case idp of
             None \<Rightarrow> (admin_catch ''Failed to delete category'' OtherError, db, [])
           | Some i \<Rightarrow>
               (case findUnique_category db i of
                  None \<Rightarrow> (json_error 404 ''Category not found'', db, [])
                | Some existingCategory \<Rightarrow>
                    (let fileKeysToDelete =
                           image_keys (images_of db i)
                           @ category_video_keys (cat_videoUrl existingCategory)
                     in case delete_category db i of
                          None \<Rightarrow>
                            (admin_catch ''Failed to delete category'' OtherError, db,
                             [DbDeleteCategory i])
                        | Some db' \<Rightarrow>
                            (\<lparr> status = 200,
                               body = SuccessMessage ''Category deleted successfully'' \<rparr>,
                             db', DbDeleteCategory i # delete_files_call fileKeysToDelete)))))"

section \<open>The gallery routes: POST on \<^verbatim>\<open>/api/admin/gallery\<close>, PUT and DELETE on \<^verbatim>\<open>[id]\<close>\<close>

text \<open>
  \<^verbatim>\<open>galleryImageSchema\<close> of \<^verbatim>\<open>@/lib/validators\<close> is not under src/ and is a parameter. It
  stands for \<^verbatim>\<open>galleryImageSchema.parse({ category, caption: caption || undefined,
  categoryId: categoryId ? parseInt(categoryId) : undefined })\<close>: it receives the category,
  the caption and the category id with an empty string already turned into \<open>None\<close>, and
  returns \<open>None\<close> when \<^verbatim>\<open>parse\<close> throws. The upload request to \<^verbatim>\<open>/api/upload\<close> is
  answered by the environment.
\<close>

record uploaded_file =
  f_name :: string
  f_type :: string
  f_size :: nat

record gallery_json =
  gj_category :: "string option"
  gj_caption :: "string option"
  gj_url :: "string option"
  gj_publicId :: "string option"
  gj_categoryId :: "string option"

record gallery_form =
  gf_file :: "uploaded_file option"
  gf_category :: "string option"
  gf_caption :: "string option"
  gf_categoryId :: "string option"
  gf_url :: "string option"
  gf_publicId :: "string option"

record gallery_request =
  gr_contentType :: "string option"
  gr_json :: "gallery_json option"
  gr_formData :: "gallery_form option"

datatype upload_result = Uploaded string string | UploadFailed

type_synonym gallery_schema = "string option \<Rightarrow> string option \<Rightarrow> string option \<Rightarrow> gallery_meta option"

fun str_includes :: "string \<Rightarrow> string \<Rightarrow> bool" where
  \<comment> \<open>\<^verbatim>\<open>s.includes(sub)\<close>\<close>
  "str_includes [] sub = (sub = [])"
| "str_includes (c # cs) sub =
     (case strip_prefix sub (c # cs) of Some r \<Rightarrow> True | None \<Rightarrow> str_includes cs sub)"

definition truthy :: "string option \<Rightarrow> string option" where
  \<comment> \<open>\<^verbatim>\<open>x || undefined\<close> on an optional string\<close>
  "truthy x = (case x of None \<Rightarrow> None | Some s \<Rightarrow> if s = [] then None else Some s)"

definition is_json_request :: "gallery_request \<Rightarrow> bool" where
  \<comment> \<open>\<^verbatim>\<open>contentType?.includes('application/json')\<close>\<close>
  "is_json_request r =
     (case gr_contentType r of None \<Rightarrow> False | Some ct \<Rightarrow> str_includes ct ''application/json'')"

definition gallery_POST_json ::
  "gallery_schema \<Rightarrow> gallery_json option \<Rightarrow> database \<Rightarrow> outcome" where
  "gallery_POST_json galleryImageSchema req db =
     (case req of
        None \<Rightarrow> (admin_catch ''Failed to upload image'' OtherError, db, [])
      | Some b \<Rightarrow>
          (case (truthy (gj_url b), truthy (gj_publicId b)) of
             (Some url, Some publicId) \<Rightarrow>
               (case galleryImageSchema (gj_category b) (truthy (gj_caption b))
                       (truthy (gj_categoryId b)) of
                  None \<Rightarrow> (admin_catch ''Failed to upload image'' OtherError, db, [])
                | Some validatedData \<Rightarrow>
                    (case create_image db validatedData url publicId of
                       None \<Rightarrow>
                         (admin_catch ''Failed to upload image'' OtherError, db, [DbCreateImage])
                     | Some (g, db') \<Rightarrow>
                         (\<lparr> status = 200, body = ImageData g \<rparr>, db', [DbCreateImage])))
           | _ \<Rightarrow> (json_error 400 ''URL and public ID are required'', db, [])))"

definition gallery_POST_form ::
  "gallery_schema \<Rightarrow> upload_result \<Rightarrow> gallery_form option \<Rightarrow> database \<Rightarrow> outcome" where
  "gallery_POST_form galleryImageSchema upload req db =
     (case req of
        None \<Rightarrow> (admin_catch ''Failed to upload image'' OtherError, db, [])
      | Some formData \<Rightarrow>
          (case gf_file formData of
             None \<Rightarrow> (json_error 400 ''No file provided'', db, [])
           | Some file \<Rightarrow>
               if \<not> startsWith (f_type file) ''image/''
               then (json_error 400 ''Only image files are allowed'', db, [])
               else
                 (case galleryImageSchema (gf_category formData) (truthy (gf_caption formData))
                         (truthy (gf_categoryId formData)) of
                    None \<Rightarrow> (admin_catch ''Failed to upload image'' OtherError, db, [])
                  | Some validatedData \<Rightarrow>
                      (case upload of
                         UploadFailed \<Rightarrow>
                           (admin_catch ''Failed to upload image'' OtherError, db,
                            [UploadFile (f_name file)])
                       | Uploaded secure_url public_id \<Rightarrow>
                           (case create_image db validatedData secure_url public_id of
                              None \<Rightarrow>
                                (admin_catch ''Failed to upload image'' OtherError, db,
                                 [UploadFile (f_name file), DbCreateImage])
                            | Some (g, db') \<Rightarrow>
                                (\<lparr> status = 200, body = ImageData g \<rparr>, db',
                                 [UploadFile (f_name file), DbCreateImage]))))))"

definition gallery_POST ::
  "gallery_schema \<Rightarrow> bool \<Rightarrow> upload_result \<Rightarrow> gallery_request \<Rightarrow> database \<Rightarrow> outcome" where
  "gallery_POST galleryImageSchema valid_session upload req db =
     (case requireAdmin valid_session of
        Inl e \<Rightarrow> (admin_catch ''Failed to upload image'' e, db, [])
      | Inr u \<Rightarrow>
          if is_json_request req then gallery_POST_json galleryImageSchema (gr_json req) db
          else gallery_POST_form galleryImageSchema upload (gr_formData req) db)"

definition single_key_call :: "string option \<Rightarrow> effect list" where
  \<comment> \<open>\<^verbatim>\<open>if (image.publicId) utapi.deleteFiles(image.publicId)\<close>\<close>
  "single_key_call k = (case truthy k of None \<Rightarrow> [] | Some key \<Rightarrow> [DeleteFiles [key]])"

definition gallery_PUT ::
  "gallery_schema \<Rightarrow> bool \<Rightarrow> storage_result \<Rightarrow> int option \<Rightarrow> gallery_form option
   \<Rightarrow> database \<Rightarrow> outcome" where
  "gallery_PUT galleryImageSchema valid_session storage idp req db =
     (case requireAdmin valid_session of
        Inl e \<Rightarrow> (admin_catch ''Failed to update image'' e, db, [])
      | Inr u \<Rightarrow>
          (case idp of
             None \<Rightarrow> (admin_catch ''Failed to update image'' OtherError, db, [])
           | Some i \<Rightarrow>
               (case findUnique_image db i of
                  None \<Rightarrow> (json_error 404 ''Image not found'', db, [])
                | Some existingImage \<Rightarrow>
                    (case req of
                       None \<Rightarrow> (admin_catch ''Failed to update image'' OtherError, db, [])
                     | Some formData \<Rightarrow>
                         (case galleryImageSchema (gf_category formData)
                                 (truthy (gf_caption formData)) (truthy (gf_categoryId formData)) of
                            None \<Rightarrow> (admin_catch ''Failed to update image'' OtherError, db, [])
                          | Some validatedData \<Rightarrow>
                              (let repl = (case (truthy (gf_url formData),
                                                 truthy (gf_publicId formData)) of
                                             (Some url, Some publicId) \<Rightarrow> Some (url, publicId)
                                           | _ \<Rightarrow> None);
                                   log = (if repl = None then []
                                          else single_key_call (img_publicId existingImage))
                                         @ [DbUpdateImage i]
                               in case update_image db i validatedData repl of
                                    None \<Rightarrow>
                                      (admin_catch ''Failed to update image'' OtherError, db, log)
                                  | Some (g, db') \<Rightarrow>
                                      (\<lparr> status = 200, body = ImageData g \<rparr>, db', log)))))))"

definition gallery_DELETE ::
  "bool \<Rightarrow> storage_result \<Rightarrow> int option \<Rightarrow> database \<Rightarrow> outcome" where
  "gallery_DELETE valid_session storage idp db =
     (case requireAdmin valid_session of
        Inl e \<Rightarrow> (admin_catch ''Failed to delete image'' e, db, [])
      | Inr u \<Rightarrow>
          (case idp of
             None \<Rightarrow> (admin_catch ''Failed to delete image'' OtherError, db, [])
           | Some i \<Rightarrow>
               (case findUnique_image db i of
                  None \<Rightarrow> (json_error 404 ''Image not found'', db, [])
                | Some img \<Rightarrow>
                    (let log = single_key_call (img_publicId img) @ [DbDeleteImage i]
                     in case delete_image db i of
                          None \<Rightarrow> (admin_catch ''Failed to delete image'' OtherError, db, log)
                        | Some db' \<Rightarrow>
                            (\<lparr> status = 200, body = SuccessMessage ''Image deleted successfully'' \<rparr>,
                             db', log)))))"

section \<open>The client fetch wrapper: \<^verbatim>\<open>fetchWithTimeout\<close> of \<^verbatim>\<open>lib/api-client.ts\<close>\<close>

text \<open>
  The options with their defaults, the outcome of each call of \<^verbatim>\<open>fetch\<close> as given by the
  environment (indexed by the attempt), and the trace of timer and network calls the
  wrapper makes. A retry count is a natural number; times are in milliseconds.
\<close>

record fetch_options =
  fo_timeout :: "nat option"
  fo_retries :: "nat option"
  fo_retryDelay :: "nat option"

record js_error =
  err_name :: string
  err_message :: string

datatype thrown = ErrorObject js_error | NonError

datatype 'r fetch_outcome = Resolves 'r | Rejects thrown

definition as_error :: "thrown \<Rightarrow> js_error" where
  \<comment> \<open>\<^verbatim>\<open>error instanceof Error ? error : new Error('Unknown error')\<close>\<close>
  "as_error x =
     (case x of
        ErrorObject e \<Rightarrow> e
      | NonError \<Rightarrow> \<lparr> err_name = ''Error'', err_message = ''Unknown error'' \<rparr>)"

datatype fetch_event =
    SetAbortTimer nat
  | Fetch nat
  | Sleep nat
  | ClearAbortTimer

definition timeout_of :: "fetch_options \<Rightarrow> nat" where
  "timeout_of opts = (case fo_timeout opts of None \<Rightarrow> 10000 | Some t \<Rightarrow> t)"

definition retries_of :: "fetch_options \<Rightarrow> nat" where
  "retries_of opts = (case fo_retries opts of None \<Rightarrow> 0 | Some n \<Rightarrow> n)"

definition retryDelay_of :: "fetch_options \<Rightarrow> nat" where
  "retryDelay_of opts = (case fo_retryDelay opts of None \<Rightarrow> 1000 | Some d \<Rightarrow> d)"

function attempt_loop ::
  "nat \<Rightarrow> nat \<Rightarrow> (nat \<Rightarrow> 'r fetch_outcome) \<Rightarrow> js_error option \<Rightarrow> nat
   \<Rightarrow> (js_error + 'r) \<times> fetch_event list" where
  \<comment> \<open>\<^verbatim>\<open>for (let attempt = 0; attempt <= retries; attempt++)\<close> and the two lines after it\<close>
  "attempt_loop retries retryDelay env lastError attempt =
     (if attempt \<le> retries then
        (case env attempt of
           Resolves response \<Rightarrow> (Inr response, [Fetch attempt, ClearAbortTimer])
         | Rejects error \<Rightarrow>
             (let e = as_error error
              in if err_name e = ''AbortError'' \<or> attempt = retries
                 then (Inl e, [Fetch attempt, ClearAbortTimer])
                 else (let (r, evs) = attempt_loop retries retryDelay env (Some e) (attempt + 1)
                       in (r, Fetch attempt # Sleep retryDelay # evs))))
      else
        ((case lastError of
            Some e \<Rightarrow> Inl e
          | None \<Rightarrow> Inl \<lparr> err_name = ''Error'', err_message = ''Fetch failed'' \<rparr>),
         [ClearAbortTimer]))"
  by pat_completeness auto
termination
  by (relation "measure (\<lambda>(retries, retryDelay, env, lastError, attempt). retries + 1 - attempt)")
     auto

declare attempt_loop.simps [simp del]

definition fetchWithTimeout ::
  "fetch_options \<Rightarrow> (nat \<Rightarrow> 'r fetch_outcome) \<Rightarrow> (js_error + 'r) \<times> fetch_event list" where
  "fetchWithTimeout opts env =
     (let (r, evs) = attempt_loop (retries_of opts) (retryDelay_of opts) env None 0
      in (r, SetAbortTimer (timeout_of opts) # evs))"

definition is_abort :: "thrown \<Rightarrow> bool" where
  "is_abort x = (err_name (as_error x) = ''AbortError'')"

definition outcome_result :: "'r fetch_outcome \<Rightarrow> js_error + 'r" where
  \<comment> \<open>what the wrapper returns or throws when it stops at an attempt with this outcome\<close>
  "outcome_result out = (case out of Resolves r \<Rightarrow> Inr r | Rejects x \<Rightarrow> Inl (as_error x))"

definition retryable :: "'r fetch_outcome \<Rightarrow> bool" where
  \<comment> \<open>a rejection whose error is not named \<^verbatim>\<open>AbortError\<close>\<close>
  "retryable out = (case out of Resolves r \<Rightarrow> False | Rejects x \<Rightarrow> \<not> is_abort x)"

definition fetch_count :: "fetch_event list \<Rightarrow> nat" where
  "fetch_count evs = length (filter (\<lambda>e. case e of Fetch k \<Rightarrow> True | _ \<Rightarrow> False) evs)"

fun retry_rounds :: "nat \<Rightarrow> nat \<Rightarrow> nat \<Rightarrow> fetch_event list" where
  \<comment> \<open>\<open>k\<close> failed attempts from attempt \<open>a\<close> on, each followed by one wait of \<open>d\<close>\<close>
  "retry_rounds d a 0 = []"
| "retry_rounds d a (Suc k) = Fetch a # Sleep d # retry_rounds d (Suc a) k"

section \<open>A concrete database and concrete requests\<close>

definition empty_db :: database where
  "empty_db = \<lparr> categories = [], images = [], prices = [],
                next_category_id = 1, next_image_id = 1, next_price_id = 1 \<rparr>"

definition deluxe :: hotel_category where
  "deluxe = \<lparr> cat_id = 1, cat_slug = ''deluxe-room'', cat_title = ''Deluxe Room'',
              cat_description = ''Sea view'', cat_specs = [(''wifi'', True)],
              cat_essentialAmenities = [''wifi''], cat_roomCount = 5,
              cat_videoUrl = Some ''https://utfs.io/f/VID1'' \<rparr>"

definition image_k1 :: gallery_image where
  "image_k1 = \<lparr> img_id = 1, img_category = ''Rooms'', img_url = ''u1'',
                img_publicId = Some ''k1'', img_caption = Some ''Deluxe Room - Image 1'',
                img_categoryId = Some 1 \<rparr>"

definition price_24h :: price_row where
  "price_24h = \<lparr> price_id = 1, price_categoryId = 1, price_hourlyHours = 24,
                 price_rateCents = 9000, price_label = None \<rparr>"

definition hotel_db :: database where
  "hotel_db = \<lparr> categories = [deluxe], images = [image_k1], prices = [price_24h],
                next_category_id = 2, next_image_id = 2, next_price_id = 2 \<rparr>"

definition odd_video_db :: database where
  \<comment> \<open>the same room with a video URL that none of the patterns matches\<close>
  "odd_video_db =
     hotel_db\<lparr> categories := [deluxe\<lparr> cat_videoUrl := Some ''https://host/x/y/ABC123?q=1'' \<rparr>] \<rparr>"

definition create_deluxe :: room_payload where
  "create_deluxe = \<lparr> rp_id = None, rp_title = Some ''Deluxe Room'', rp_description = None,
                     rp_specs = Some [], rp_essentialAmenities = None, rp_roomCount = Some 5,
                     rp_images = Some [\<lparr> d_url = ''u1'', d_publicId = ''k1'' \<rparr>],
                     rp_videos = None \<rparr>"

definition edit_deluxe :: room_payload where
  "edit_deluxe = \<lparr> rp_id = Some 1, rp_title = Some ''Deluxe Room'', rp_description = None,
                   rp_specs = Some [], rp_essentialAmenities = None, rp_roomCount = Some 5,
                   rp_images = Some [], rp_videos = None \<rparr>"

definition edit_two_images :: room_payload where
  "edit_two_images =
     edit_deluxe\<lparr> rp_images := Some [\<lparr> d_url = ''u2'', d_publicId = ''k2'' \<rparr>,
                                      \<lparr> d_url = ''u3'', d_publicId = ''k3'' \<rparr>] \<rparr>"

definition keep_video_edit :: room_payload where
  \<comment> \<open>drops the image and submits the stored video again\<close>
  "keep_video_edit =
     edit_deluxe\<lparr> rp_videos := Some [\<lparr> d_url = ''https://utfs.io/f/VID1'', d_publicId = ''VID1'' \<rparr>] \<rparr>"

definition untitled_edit :: room_payload where
  \<comment> \<open>an update of room 1 with no title, no images and no video\<close>
  "untitled_edit = edit_deluxe\<lparr> rp_title := None \<rparr>"

definition suite :: hotel_category where
  "suite = \<lparr> cat_id = 2, cat_slug = ''suite'', cat_title = ''Suite'',
             cat_description = ''Two rooms'', cat_specs = [], cat_essentialAmenities = [],
             cat_roomCount = 1, cat_videoUrl = None \<rparr>"

definition two_rooms_db :: database where
  "two_rooms_db = hotel_db\<lparr> categories := [deluxe, suite], next_category_id := 3 \<rparr>"

definition rename_to_suite :: room_payload where
  \<comment> \<open>renames room 1 to a title whose slug room 2 already has, with two images\<close>
  "rename_to_suite = edit_two_images\<lparr> rp_title := Some ''Suite!'' \<rparr>"

definition tier :: "int \<Rightarrow> int \<Rightarrow> price_input" where
  "tier h r = \<lparr> pi_hourlyHours = h, pi_rateCents = r, pi_label = None \<rparr>"

definition five_tiers :: category_body where
  "five_tiers = \<lparr> cb_prices = PricesArray [tier 24 9000, tier 2 1500, tier 12 6000,
                                             tier 4 2500, tier 6 3500],
                   cb_categoryData = [] \<rparr>"

definition title_only :: category_body where
  "title_only = \<lparr> cb_prices = PricesAbsent, cb_categoryData = [(''title'', JStr ''Suite'')] \<rparr>"

definition title_schema :: "(string \<times> jval) list \<Rightarrow> category_patch option" where
  \<comment> \<open>a validator that accepts a string title and nothing else\<close>
  "title_schema kvs =
     (case kvs of
        [(k, JStr t)] \<Rightarrow>
          if k = ''title'' then
            Some \<lparr> cp_slug = None, cp_title = Some t, cp_description = None, cp_specs = None,
                   cp_essentialAmenities = None, cp_roomCount = None, cp_videoUrl = None \<rparr>
          else None
      | _ \<Rightarrow> None)"

definition video_upload :: gallery_request where
  "video_upload =
     \<lparr> gr_contentType = Some ''multipart/form-data; boundary=x'', gr_json = None,
       gr_formData = Some \<lparr> gf_file = Some \<lparr> f_name = ''clip.mp4'', f_type = ''video/mp4'',
                                               f_size = 1000 \<rparr>,
                            gf_category = Some ''Rooms'', gf_caption = None,
                            gf_categoryId = None, gf_url = None, gf_publicId = None \<rparr> \<rparr>"

definition any_gallery_schema :: gallery_schema where
  \<comment> \<open>a validator that accepts every request with a category label\<close>
  "any_gallery_schema category caption categoryId =
     (case category of
        None \<Rightarrow> None
      | Some c \<Rightarrow> Some \<lparr> gm_category = c, gm_caption = caption, gm_categoryId = None \<rparr>)"

definition flaky :: "nat \<Rightarrow> string fetch_outcome" where
  \<comment> \<open>two network failures, then a response\<close>
  "flaky k =
     (if k < 2 then Rejects (ErrorObject \<lparr> err_name = ''TypeError'', err_message = ''fetch failed'' \<rparr>)
      else Resolves ''ok'')"

definition aborting :: "nat \<Rightarrow> string fetch_outcome" where
  \<comment> \<open>one network failure, then the abort timer fires\<close>
  "aborting k =
     (if k < 1 then Rejects (ErrorObject \<lparr> err_name = ''TypeError'', err_message = ''fetch failed'' \<rparr>)
      else Rejects (ErrorObject \<lparr> err_name = ''AbortError'', err_message = ''aborted'' \<rparr>))"

definition three_retries :: fetch_options where
  "three_retries = \<lparr> fo_timeout = None, fo_retries = Some 3, fo_retryDelay = Some 500 \<rparr>"

section \<open>Slug derivation\<close>

lemma dash_not_alnum: "\<not> is_lower_alnum CHR ''-''"
  by (simp add: is_lower_alnum_def)

lemma lower_fix_alnum: "is_lower_alnum c \<Longrightarrow> toLowerCase_char c = c"
  by (auto simp: is_lower_alnum_def toLowerCase_char_def Let_def)

lemma lower_fix_dash: "toLowerCase_char CHR ''-'' = CHR ''-''"
  by (simp add: toLowerCase_char_def)

lemma lower_fix_slug: "list_all slug_char s \<Longrightarrow> toLowerCase s = s"
  by (induction s) (auto simp: toLowerCase_def slug_char_def lower_fix_alnum lower_fix_dash)

lemma runs_chars: "list_all slug_char (replace_non_alnum_runs s)"
  by (induction s rule: replace_non_alnum_runs.induct) (auto simp: slug_char_def)

lemma runs_head:
  "replace_non_alnum_runs s = c # r \<Longrightarrow> c = CHR ''-'' \<Longrightarrow> s \<noteq> [] \<and> \<not> is_lower_alnum (hd s)"
  by (cases s) (auto split: if_splits simp: dash_not_alnum)

lemma dropWhile_head: "dropWhile P xs = y # ys \<Longrightarrow> \<not> P y"
  by (induction xs) (auto split: if_splits)

lemma runs_single: "single_seps (replace_non_alnum_runs s)"
proof (induction s rule: replace_non_alnum_runs.induct)
  case 1
  show ?case by simp
next
  case (2 c cs)
  show ?case
  proof (cases "is_lower_alnum c")
    case True
    with 2 show ?thesis
      by (cases "replace_non_alnum_runs cs") (auto simp: dash_not_alnum)
  next
    case False
    let ?d = "dropWhile (\<lambda>d. \<not> is_lower_alnum d) cs"
    have ih: "single_seps (replace_non_alnum_runs ?d)"
      using 2 False by simp
    show ?thesis
    proof (cases "replace_non_alnum_runs ?d")
      case Nil
      with False show ?thesis by simp
    next
      case (Cons e es)
      have "e \<noteq> CHR ''-''"
      proof
        assume "e = CHR ''-''"
        with Cons runs_head have ne: "?d \<noteq> []" and h: "\<not> is_lower_alnum (hd ?d)"
          by blast+
        then obtain y ys where "?d = y # ys"
          by (cases ?d) auto
        with dropWhile_head[of "\<lambda>d. \<not> is_lower_alnum d" cs y ys] h show False
          by simp
      qed
      with ih Cons False show ?thesis by simp
    qed
  qed
qed

lemma single_seps_tl: "single_seps (c # cs) \<Longrightarrow> single_seps cs"
  by (cases cs) auto

lemma single_seps_butlast: "single_seps s \<Longrightarrow> single_seps (butlast s)"
  by (induction s rule: single_seps.induct) (auto split: if_splits)

lemma list_all_butlast: "list_all P s \<Longrightarrow> list_all P (butlast s)"
  by (induction s) auto

lemma single_last_butlast:
  "single_seps s \<Longrightarrow> s \<noteq> [] \<Longrightarrow> last s = CHR ''-'' \<Longrightarrow> \<not> ends_with_dash (butlast s)"
  by (induction s rule: single_seps.induct) (auto simp: ends_with_dash_def split: if_splits)

lemma starts_butlast: "\<not> starts_with_dash s \<Longrightarrow> \<not> starts_with_dash (butlast s)"
  by (cases s) (auto split: if_splits)

lemma strip_well_formed:
  assumes "list_all slug_char s" "single_seps s"
  shows "well_formed_slug (strip_edge_dashes s)"
proof -
  define s1 where "s1 = (case s of [] \<Rightarrow> [] | c # cs \<Rightarrow> if c = CHR ''-'' then cs else c # cs)"
  have a1: "list_all slug_char s1"
    using assms(1) by (cases s) (auto simp: s1_def)
  have b1: "single_seps s1"
    using assms(2) by (cases s) (auto simp: s1_def dest: single_seps_tl)
  have c1: "\<not> starts_with_dash s1"
  proof (cases s)
    case Nil
    then show ?thesis by (simp add: s1_def)
  next
    case (Cons c cs)
    show ?thesis
    proof (cases "c = CHR ''-''")
      case True
      with Cons assms(2) show ?thesis by (cases cs) (auto simp: s1_def)
    next
      case False
      with Cons show ?thesis by (simp add: s1_def)
    qed
  qed
  have eq: "strip_edge_dashes s = (if s1 \<noteq> [] \<and> last s1 = CHR ''-'' then butlast s1 else s1)"
    by (simp add: strip_edge_dashes_def s1_def Let_def)
  show ?thesis
  proof (cases "s1 \<noteq> [] \<and> last s1 = CHR ''-''")
    case True
    then show ?thesis
      using a1 b1 c1 eq
      by (simp add: well_formed_slug_def list_all_butlast single_seps_butlast
            single_last_butlast starts_butlast)
  next
    case False
    then show ?thesis
      using a1 b1 c1 eq by (auto simp: well_formed_slug_def ends_with_dash_def)
  qed
qed

lemma slugify_well_formed: "well_formed_slug (slugify t)"
  unfolding slugify_def by (rule strip_well_formed[OF runs_chars runs_single])

lemma runs_fix: "list_all slug_char s \<Longrightarrow> single_seps s \<Longrightarrow> replace_non_alnum_runs s = s"
  by (induction s rule: single_seps.induct) (auto simp: slug_char_def dash_not_alnum)

lemma strip_fix: "\<not> starts_with_dash s \<Longrightarrow> \<not> ends_with_dash s \<Longrightarrow> strip_edge_dashes s = s"
  by (cases s) (auto simp: strip_edge_dashes_def ends_with_dash_def Let_def)

lemma slug_fixed: "well_formed_slug s \<Longrightarrow> slugify s = s"
  by (simp add: well_formed_slug_def slugify_def lower_fix_slug runs_fix strip_fix)

lemma slugify_deluxe: "slugify ''Deluxe Room'' = ''deluxe-room''"
  by code_simp

text \<open>
  Claim C7. The slug is a function of the title alone. For every title, the slug consists of
  characters of \<^verbatim>\<open>[a-z0-9]\<close> and dashes, no two dashes are adjacent, it neither starts nor
  ends with a dash, and deriving the slug of a slug returns it unchanged.
\<close>

theorem slugify_well_formed_idempotent:
  "list_all slug_char (slugify t) \<and> single_seps (slugify t)
   \<and> \<not> starts_with_dash (slugify t) \<and> \<not> ends_with_dash (slugify t)
   \<and> slugify (slugify t) = slugify t"
  using slugify_well_formed[of t] slug_fixed[of "slugify t"]
  by (simp add: well_formed_slug_def)

theorem slugify_well_formed_idempotent_witness:
  "list_all slug_char ''deluxe-room'' \<and> single_seps ''deluxe-room''
   \<and> \<not> starts_with_dash ''deluxe-room'' \<and> \<not> ends_with_dash ''deluxe-room''
   \<and> slugify ''deluxe-room'' = ''deluxe-room''"
  by (rule slugify_well_formed_idempotent[of "''Deluxe Room''", unfolded slugify_deluxe])

section \<open>Video keys and the files a room handler deletes\<close>

lemma strip_prefix_append: "strip_prefix p s = Some r \<Longrightarrow> s = p @ r"
  by (induction p s rule: strip_prefix.induct) (auto split: if_splits)

lemma regex_search_slash:
  assumes m: "\<forall>t k. m t = Some k \<longrightarrow> CHR ''/'' \<in> set t"
  shows "regex_search m s = Some k \<Longrightarrow> CHR ''/'' \<in> set s"
proof (induction s)
  case Nil
  then show ?case using m by fastforce
next
  case (Cons a s)
  show ?case
  proof (cases "m (a # s)")
    case None
    with Cons show ?thesis by simp
  next
    case (Some k')
    with m show ?thesis by blast
  qed
qed

lemma lazy_slash: "lazy_any_then_slash_key_end s = Some k \<Longrightarrow> CHR ''/'' \<in> set s"
  by (induction s) (auto split: option.splits if_splits)

lemma pat_f_slash: "pat_f s = Some k \<Longrightarrow> CHR ''/'' \<in> set s"
  by (auto simp: pat_f_def split: option.splits dest!: strip_prefix_append)

lemma pat_a_slash: "pat_a s = Some k \<Longrightarrow> CHR ''/'' \<in> set s"
  by (auto simp: pat_a_def split: option.splits dest!: strip_prefix_append)

lemma pat_uploadthing_slash: "pat_uploadthing s = Some k \<Longrightarrow> CHR ''/'' \<in> set s"
  by (auto simp: pat_uploadthing_def split: option.splits dest!: strip_prefix_append lazy_slash)

lemma pat_utfs_af_slash: "pat_utfs_af s = Some k \<Longrightarrow> CHR ''/'' \<in> set s"
  by (auto simp: pat_utfs_af_def split: option.splits list.splits dest!: strip_prefix_append)

lemma pat_utfs_f_slash: "pat_utfs_f s = Some k \<Longrightarrow> CHR ''/'' \<in> set s"
  by (auto simp: pat_utfs_f_def split: option.splits dest!: strip_prefix_append)

lemma pats_slash:
  "\<forall>t k. pat_f t = Some k \<longrightarrow> CHR ''/'' \<in> set t"
  "\<forall>t k. pat_a t = Some k \<longrightarrow> CHR ''/'' \<in> set t"
  "\<forall>t k. pat_uploadthing t = Some k \<longrightarrow> CHR ''/'' \<in> set t"
  "\<forall>t k. pat_utfs_af t = Some k \<longrightarrow> CHR ''/'' \<in> set t"
  "\<forall>t k. pat_utfs_f t = Some k \<longrightarrow> CHR ''/'' \<in> set t"
  using pat_f_slash pat_a_slash pat_uploadthing_slash pat_utfs_af_slash pat_utfs_f_slash
  by blast+

lemma first_match_slash:
  assumes "\<forall>p \<in> set ps. \<forall>t k. p t = Some k \<longrightarrow> CHR ''/'' \<in> set t"
  shows "first_match ps u = Some k \<Longrightarrow> CHR ''/'' \<in> set u"
  using assms
proof (induction ps)
  case Nil
  then show ?case by simp
next
  case (Cons p ps)
  show ?case
  proof (cases "regex_search p u")
    case None
    with Cons show ?thesis by simp
  next
    case (Some k')
    have "\<forall>t k. p t = Some k \<longrightarrow> CHR ''/'' \<in> set t"
      using Cons.prems(2) by simp
    from regex_search_slash[OF this Some] show ?thesis .
  qed
qed

lemma video_key_put_slash:
  assumes "video_key_put u = Some k"
  shows "CHR ''/'' \<in> set u"
proof -
  have fm: "first_match put_patterns u = Some k"
    using assms by (simp add: video_key_put_def)
  have "\<forall>p \<in> set put_patterns. \<forall>t k. p t = Some k \<longrightarrow> CHR ''/'' \<in> set t"
    using pats_slash by (simp add: put_patterns_def)
  from first_match_slash[OF this fm] show ?thesis .
qed

lemma video_key_delete_slash:
  assumes "video_key_delete u = Some k"
  shows "CHR ''/'' \<in> set u"
proof -
  have fm: "first_match delete_patterns u = Some k"
    using assms by (simp add: video_key_delete_def)
  have "\<forall>p \<in> set delete_patterns. \<forall>t k. p t = Some k \<longrightarrow> CHR ''/'' \<in> set t"
    using pats_slash by (simp add: delete_patterns_def)
  from first_match_slash[OF this fm] show ?thesis .
qed

lemma dropWhile_all: "dropWhile P xs = [] \<Longrightarrow> list_all P xs"
  by (induction xs) (auto split: if_splits)

lemma trim_empty_spaces: "trim u = [] \<Longrightarrow> list_all is_js_space u"
proof -
  assume "trim u = []"
  then have "dropWhile is_js_space (rev (dropWhile is_js_space u)) = []"
    by (simp add: trim_def)
  then have a: "list_all is_js_space (dropWhile is_js_space u)"
    using dropWhile_all[of is_js_space "rev (dropWhile is_js_space u)"] by (simp add: list_all_iff)
  have "dropWhile is_js_space u = []"
  proof (cases "dropWhile is_js_space u")
    case Nil then show ?thesis .
  next
    case (Cons y ys)
    then have "\<not> is_js_space y" by (rule dropWhile_head)
    with a Cons show ?thesis by simp
  qed
  then show ?thesis by (rule dropWhile_all)
qed

lemma slash_not_space: "\<not> is_js_space CHR ''/''"
  by (simp add: is_js_space_def)

lemma blank_no_slash: "trim u = [] \<Longrightarrow> CHR ''/'' \<notin> set u"
  using trim_empty_spaces[of u] slash_not_space by (auto simp: list_all_iff)

lemma blank_no_key_put: "trim u = [] \<Longrightarrow> video_key_put u = None"
  using blank_no_slash video_key_put_slash by (cases "video_key_put u") auto

lemma blank_no_key_delete: "trim u = [] \<Longrightarrow> video_key_delete u = None"
  using blank_no_slash video_key_delete_slash by (cases "video_key_delete u") auto

lemma trim_Nil: "trim [] = []" by (simp add: trim_def)

lemma old_video_keys_put_eq:
  "old_video_keys_put stored new =
     (if stored = new then []
      else (case stored of None \<Rightarrow> []
            | Some u \<Rightarrow> (case video_key_put u of None \<Rightarrow> [] | Some k \<Rightarrow> [k])))"
  by (auto simp: old_video_keys_put_def blank_no_key_put trim_Nil split: option.splits)

lemma old_video_keys_delete_eq:
  "old_video_keys_delete stored =
     (case stored of None \<Rightarrow> []
      | Some u \<Rightarrow> (case video_key_delete u of None \<Rightarrow> [] | Some k \<Rightarrow> [k]))"
  by (auto simp: old_video_keys_delete_def blank_no_key_delete trim_Nil split: option.splits)

lemma first_match_none:
  "\<forall>p \<in> set ps. regex_search p url = None \<Longrightarrow> first_match ps url = None"
  by (induction ps) auto

lemma rooms_PUT_existing:
  assumes "findUnique_category db i = Some c" "i \<noteq> 0" "rp_id data = Some i"
    "rp_title data = Some t"
  shows "rooms_PUT s st (Some data) db =
     (let keys = put_fileKeysToDelete (images_of db i) (cat_videoUrl c) data;
          log = delete_files_call keys @ [DbDeleteImages i, DbUpdateCategory i];
          db1 = deleteMany_images db i
      in case update_room db1 i (room_data (slugify t) t data (cat_specs c))
                (submitted_images data) of
           None \<Rightarrow> (json_error 500 ''Failed to update room'', db1, log)
         | Some db2 \<Rightarrow> (\<lparr> status = 200, body = room_body db2 i \<rparr>, db2, log))"
  using assms by (simp add: rooms_PUT_def Let_def)

lemma rooms_PUT_effects:
  assumes "findUnique_category db i = Some c" "i \<noteq> 0" "rp_id data = Some i"
    "rp_title data = Some t"
  shows "effects (rooms_PUT s st (Some data) db) =
     delete_files_call (put_fileKeysToDelete (images_of db i) (cat_videoUrl c) data)
     @ [DbDeleteImages i, DbUpdateCategory i]"
  by (simp add: rooms_PUT_existing[OF assms] effects_def Let_def split: option.splits)

lemma rooms_DELETE_existing:
  assumes "findUnique_category db i = Some c"
  shows "\<exists>db'. delete_category db i = Some db' \<and>
     rooms_DELETE s st (IdInt i) db =
       (\<lparr> status = 200, body = MessageBody ''Room deleted successfully'' \<rparr>, db',
        delete_files_call (image_keys (images_of db i) @ old_video_keys_delete (cat_videoUrl c))
        @ [DbDeleteCategory i])"
  using assms by (simp add: rooms_DELETE_def delete_category_def Let_def)

text \<open>
  The third URL of claim C3 matches none of the patterns of either handler: no key is
  extracted from it.
\<close>

theorem video_key_bare_suffix_counterexample:
  "video_key_put ''https://host/x/y/ABC123?q=1'' = None
   \<and> video_key_delete ''https://host/x/y/ABC123?q=1'' = None"
  by code_simp

lemma video_key_examples:
  "video_key_put ''https://host/f/ABC123'' = Some ''ABC123''"
  "video_key_delete ''https://host/f/ABC123'' = Some ''ABC123''"
  "video_key_put ''https://host/a/app1/ABC123'' = Some ''ABC123''"
  "video_key_put ''https://host/x/y/ABC123?q=1'' = None"
  "video_key_delete ''https://host/x/y/ABC123?q=1'' = None"
  by code_simp+

text \<open>
  Claim C3, amended. From \<^verbatim>\<open>https://host/f/ABC123\<close> both handlers extract \<^verbatim>\<open>ABC123\<close>; from
  \<^verbatim>\<open>https://host/a/app1/ABC123\<close> the update handler extracts \<^verbatim>\<open>ABC123\<close>;
  \<^verbatim>\<open>https://host/x/y/ABC123?q=1\<close> matches no pattern and gives no key. For every URL that
  matches none of a handler's patterns, extraction gives no key, no video key is handed to
  the storage service, and the handler goes on to its database writes (the delete handler
  answers 200).
\<close>

theorem video_key_extraction:
  "video_key_put ''https://host/f/ABC123'' = Some ''ABC123''
   \<and> video_key_delete ''https://host/f/ABC123'' = Some ''ABC123''
   \<and> video_key_put ''https://host/a/app1/ABC123'' = Some ''ABC123''
   \<and> video_key_put ''https://host/x/y/ABC123?q=1'' = None
   \<and> video_key_delete ''https://host/x/y/ABC123?q=1'' = None
   \<and> ((\<forall>p \<in> set put_patterns. regex_search p url = None) \<longrightarrow>
         video_key_put url = None \<and> old_video_keys_put (Some url) new = []
         \<and> (findUnique_category db i = Some c \<and> cat_videoUrl c = Some url \<and> i \<noteq> 0
              \<and> rp_id data = Some i \<and> rp_title data = Some t \<longrightarrow>
            effects (rooms_PUT s st (Some data) db) =
              delete_files_call
                (stale_image_keys (images_of db i) (map d_publicId (submitted_images data)))
              @ [DbDeleteImages i, DbUpdateCategory i]))
   \<and> ((\<forall>p \<in> set delete_patterns. regex_search p url = None) \<longrightarrow>
         video_key_delete url = None \<and> old_video_keys_delete (Some url) = []
         \<and> (findUnique_category db i = Some c \<and> cat_videoUrl c = Some url \<longrightarrow>
            status (reply (rooms_DELETE s st (IdInt i) db)) = 200
            \<and> effects (rooms_DELETE s st (IdInt i) db) =
                delete_files_call (image_keys (images_of db i)) @ [DbDeleteCategory i]))"
proof -
  have put: "video_key_put url = None \<and> old_video_keys_put (Some url) new = []"
    if "\<forall>p \<in> set put_patterns. regex_search p url = None"
    using first_match_none[OF that] by (simp add: video_key_put_def old_video_keys_put_eq)
  have del: "video_key_delete url = None \<and> old_video_keys_delete (Some url) = []"
    if "\<forall>p \<in> set delete_patterns. regex_search p url = None"
    using first_match_none[OF that] by (simp add: video_key_delete_def old_video_keys_delete_eq)
  have put_h: "effects (rooms_PUT s st (Some data) db) =
              delete_files_call
                (stale_image_keys (images_of db i) (map d_publicId (submitted_images data)))
              @ [DbDeleteImages i, DbUpdateCategory i]"
    if "\<forall>p \<in> set put_patterns. regex_search p url = None"
      and "findUnique_category db i = Some c" "cat_videoUrl c = Some url" "i \<noteq> 0"
      "rp_id data = Some i" "rp_title data = Some t"
    using rooms_PUT_effects[OF that(2) that(4) that(5) that(6), of s st] put[OF that(1)] that(3)
    by (simp add: put_fileKeysToDelete_def old_video_keys_put_eq)
  have del_h: "status (reply (rooms_DELETE s st (IdInt i) db)) = 200
            \<and> effects (rooms_DELETE s st (IdInt i) db) =
                delete_files_call (image_keys (images_of db i)) @ [DbDeleteCategory i]"
    if "\<forall>p \<in> set delete_patterns. regex_search p url = None"
      and "findUnique_category db i = Some c" "cat_videoUrl c = Some url"
    using rooms_DELETE_existing[OF that(2), of s st] del[OF that(1)] that(3)
    by (auto simp: reply_def effects_def old_video_keys_delete_eq)
  show ?thesis
    using video_key_examples put del put_h del_h by blast
qed

lemma odd_no_match:
  "\<forall>p \<in> set put_patterns. regex_search p ''https://host/x/y/ABC123?q=1'' = None"
  "\<forall>p \<in> set delete_patterns. regex_search p ''https://host/x/y/ABC123?q=1'' = None"
  unfolding put_patterns_def delete_patterns_def list.set ball_simps by code_simp+

theorem video_key_extraction_witness:
  "old_video_keys_put (Some ''https://host/x/y/ABC123?q=1'') None = []
   \<and> effects (rooms_PUT False DeleteThrows (Some edit_deluxe) odd_video_db)
       = [DeleteFiles [''k1''], DbDeleteImages 1, DbUpdateCategory 1]
   \<and> status (reply (rooms_DELETE False DeleteThrows (IdInt 1) odd_video_db)) = 200
   \<and> effects (rooms_DELETE False DeleteThrows (IdInt 1) odd_video_db)
       = [DeleteFiles [''k1''], DbDeleteCategory 1]"
proof -
  let ?c = "deluxe\<lparr> cat_videoUrl := Some ''https://host/x/y/ABC123?q=1'' \<rparr>"
  have h1: "findUnique_category odd_video_db 1 = Some ?c"
    by (simp add: findUnique_category_def odd_video_db_def hotel_db_def deluxe_def)
  have h2: "cat_videoUrl ?c = Some ''https://host/x/y/ABC123?q=1''"
    by simp
  have h3: "rp_id edit_deluxe = Some 1" and h4: "rp_title edit_deluxe = Some ''Deluxe Room''"
    by (simp_all add: edit_deluxe_def)
  have e1: "delete_files_call
             (stale_image_keys (images_of odd_video_db 1)
                (map d_publicId (submitted_images edit_deluxe))) = [DeleteFiles [''k1'']]"
    by code_simp
  have e2: "delete_files_call (image_keys (images_of odd_video_db 1)) = [DeleteFiles [''k1'']]"
    by code_simp
  from video_key_extraction[of "''https://host/x/y/ABC123?q=1''" None odd_video_db 1 ?c
      edit_deluxe "''Deluxe Room''" False DeleteThrows]
    odd_no_match h1 h2 h3 h4
  show ?thesis unfolding e1 e2 by simp
qed


section \<open>Room update: the files scheduled for deletion\<close>

lemma set_image_keys:
  "set (image_keys imgs) = {k. k \<noteq> [] \<and> (\<exists>g \<in> set imgs. img_publicId g = Some k)}"
  by (induction imgs) (auto simp: image_keys_def List.map_filter_simps split: option.splits)

lemma deleted_keys_call:
  "deleted_keys (delete_files_call ks @ [DbDeleteImages i, DbUpdateCategory j]) = ks"
  by (simp add: delete_files_call_def)

text \<open>
  Counterexample to claim C4 as stated: an update of an existing room whose payload has no
  title is answered with 500 before any file is scheduled, although the key of the stored
  image is absent from the submitted (empty) image list.
\<close>

theorem update_without_title_schedules_nothing:
  "rp_title untitled_edit = None
   \<and> rp_images untitled_edit = Some []
   \<and> image_keys (images_of hotel_db 1) = [''k1'']
   \<and> status (reply (rooms_PUT True DeleteSucceeds (Some untitled_edit) hotel_db)) = 500
   \<and> deleted_keys (effects (rooms_PUT True DeleteSucceeds (Some untitled_edit) hotel_db)) = []"
  by code_simp

text \<open>
  Claim C4, amended. For every update of an existing room whose payload has a title, the
  keys handed to the storage service for deletion are exactly the keys of the room's stored
  images that do not occur among the keys of the payload's \<^verbatim>\<open>images\<close>, followed by the key
  extracted from the stored video URL when that URL differs from the URL of the first entry
  of the payload's \<^verbatim>\<open>videos\<close> (also when the payload has no video); when the video URL is
  unchanged no video key is among them.
\<close>

theorem update_scheduled_keys:
  assumes "findUnique_category db i = Some c" "i \<noteq> 0" "rp_id data = Some i"
    "rp_title data = Some t"
  shows "deleted_keys (effects (rooms_PUT s st (Some data) db)) =
           filter (\<lambda>k. k \<notin> d_publicId ` set (case rp_images data of None \<Rightarrow> [] | Some xs \<Rightarrow> xs))
                  (image_keys (images_of db i))
           @ (case cat_videoUrl c of
                None \<Rightarrow> []
              | Some u \<Rightarrow>
                  if (case rp_videos data of Some (v # vs) \<Rightarrow> d_url v = u | _ \<Rightarrow> False) then []
                  else (case video_key_put u of None \<Rightarrow> [] | Some k \<Rightarrow> [k]))
         \<and> set (deleted_keys (effects (rooms_PUT s st (Some data) db))) =
           {k. k \<noteq> []
               \<and> (\<exists>g \<in> set (images db). img_categoryId g = Some i \<and> img_publicId g = Some k)
               \<and> (\<forall>xs. rp_images data = Some xs \<longrightarrow> k \<notin> d_publicId ` set xs)}
           \<union> {k. \<exists>u. cat_videoUrl c = Some u \<and> video_key_put u = Some k
                    \<and> \<not> (\<exists>v vs. rp_videos data = Some (v # vs) \<and> d_url v = u)}"
proof -
  let ?new = "case rp_images data of None \<Rightarrow> [] | Some xs \<Rightarrow> xs"
  let ?same = "\<lambda>u. case rp_videos data of Some (v # vs) \<Rightarrow> d_url v = u | _ \<Rightarrow> False"
  let ?vid = "case cat_videoUrl c of
                None \<Rightarrow> []
              | Some u \<Rightarrow>
                  if ?same u then []
                  else (case video_key_put u of None \<Rightarrow> [] | Some k \<Rightarrow> [k])"
  have eff: "deleted_keys (effects (rooms_PUT s st (Some data) db)) =
      put_fileKeysToDelete (images_of db i) (cat_videoUrl c) data"
    by (simp only: rooms_PUT_effects[OF assms] deleted_keys_call)
  have same: "(Some u = newVideoUrl data) = ?same u" for u
    by (auto simp: newVideoUrl_def split: option.splits list.splits)
  have vid: "old_video_keys_put (cat_videoUrl c) (newVideoUrl data) = ?vid"
    by (cases "cat_videoUrl c") (simp_all add: old_video_keys_put_eq same)
  have list: "put_fileKeysToDelete (images_of db i) (cat_videoUrl c) data =
      filter (\<lambda>k. k \<notin> d_publicId ` set ?new) (image_keys (images_of db i)) @ ?vid"
    by (simp add: put_fileKeysToDelete_def stale_image_keys_def submitted_images_def vid)
  have imgs: "set (filter (\<lambda>k. k \<notin> d_publicId ` set ?new) (image_keys (images_of db i))) =
      {k. k \<noteq> []
          \<and> (\<exists>g \<in> set (images db). img_categoryId g = Some i \<and> img_publicId g = Some k)
          \<and> (\<forall>xs. rp_images data = Some xs \<longrightarrow> k \<notin> d_publicId ` set xs)}"
    by (cases "rp_images data") (auto simp: set_image_keys images_of_def)
  have vset: "set ?vid =
      {k. \<exists>u. cat_videoUrl c = Some u \<and> video_key_put u = Some k
             \<and> \<not> (\<exists>v vs. rp_videos data = Some (v # vs) \<and> d_url v = u)}"
    by (cases "cat_videoUrl c") (auto split: option.splits list.splits)
  show ?thesis
    unfolding eff list set_append imgs vset by simp
qed

theorem update_scheduled_keys_witness:
  "deleted_keys (effects (rooms_PUT False DeleteThrows (Some keep_video_edit) hotel_db)) = [''k1'']
   \<and> deleted_keys (effects (rooms_PUT False DeleteThrows (Some edit_deluxe) hotel_db))
     = [''k1'', ''VID1'']"
proof -
  have h1: "findUnique_category hotel_db 1 = Some deluxe"
    by (simp add: findUnique_category_def hotel_db_def deluxe_def)
  have h2: "(1::int) \<noteq> 0"
    by simp
  have h3: "rp_id keep_video_edit = Some 1" "rp_id edit_deluxe = Some 1"
    and h4: "rp_title keep_video_edit = Some ''Deluxe Room''"
      "rp_title edit_deluxe = Some ''Deluxe Room''"
    by (simp_all add: keep_video_edit_def edit_deluxe_def)
  have e1: "filter (\<lambda>k. k \<notin> d_publicId ` set (case rp_images keep_video_edit of None \<Rightarrow> [] | Some xs \<Rightarrow> xs))
                  (image_keys (images_of hotel_db 1))
           @ (case cat_videoUrl deluxe of
                None \<Rightarrow> []
              | Some u \<Rightarrow>
                  if (case rp_videos keep_video_edit of Some (v # vs) \<Rightarrow> d_url v = u | _ \<Rightarrow> False) then []
                  else (case video_key_put u of None \<Rightarrow> [] | Some k \<Rightarrow> [k]))
           = [''k1'']"
    by code_simp
  have e2: "filter (\<lambda>k. k \<notin> d_publicId ` set (case rp_images edit_deluxe of None \<Rightarrow> [] | Some xs \<Rightarrow> xs))
                  (image_keys (images_of hotel_db 1))
           @ (case cat_videoUrl deluxe of
                None \<Rightarrow> []
              | Some u \<Rightarrow>
                  if (case rp_videos edit_deluxe of Some (v # vs) \<Rightarrow> d_url v = u | _ \<Rightarrow> False) then []
                  else (case video_key_put u of None \<Rightarrow> [] | Some k \<Rightarrow> [k]))
           = [''k1'', ''VID1'']"
    by code_simp
  note a = update_scheduled_keys[OF h1 h2 h3(1) h4(1), of False DeleteThrows, THEN conjunct1,
      unfolded e1]
  note b = update_scheduled_keys[OF h1 h2 h3(2) h4(2), of False DeleteThrows, THEN conjunct1,
      unfolded e2]
  from a b show ?thesis
    by (rule conjI)
qed


section \<open>Room update: the image rows\<close>

lemma image_rows_length: "length (image_rows f i t ds) = length ds"
  by (simp add: image_rows_def)

lemma image_rows_nth:
  assumes "k < length ds"
  shows "image_rows f i t ds ! k =
     \<lparr> img_id = f + int k, img_category = ''Rooms'', img_url = d_url (ds ! k),
       img_publicId = Some (d_publicId (ds ! k)),
       img_caption = Some (t @ '' - Image '' @ string_of_nat (k + 1)),
       img_categoryId = Some i \<rparr>"
  using assms by (simp add: image_rows_def nth_enumerate_eq)

lemma image_rows_owner: "\<forall>g \<in> set (image_rows f i t ds). img_categoryId g = Some i"
  by (auto simp: image_rows_def)

lemma images_of_deleteMany: "images_of (deleteMany_images db i) i = []"
  by (simp add: images_of_def deleteMany_images_def filter_empty_conv)

lemma find_deleteMany:
  "findUnique_category (deleteMany_images db i) j = findUnique_category db j"
  by (simp add: findUnique_category_def deleteMany_images_def)

lemma slug_deleteMany: "slug_in_use (deleteMany_images db i) s e = slug_in_use db s e"
  by (simp add: slug_in_use_def deleteMany_images_def)

lemma images_of_update_room:
  assumes "update_room db1 i c ds = Some db2"
  shows "images_of db2 i = images_of db1 i @ image_rows (next_image_id db1) i (cat_title c) ds"
proof -
  have "filter (\<lambda>g. img_categoryId g = Some i) (image_rows f i t ds) = image_rows f i t ds"
    for f t
    using image_rows_owner[of f i t ds] by (simp add: filter_id_conv)
  with assms show ?thesis
    by (auto simp: update_room_def images_of_def split: option.splits if_splits)
qed

lemma update_room_succeeds:
  assumes "findUnique_category db1 i = Some old" "\<not> slug_in_use db1 (cat_slug c) (Some i)"
  shows "update_room db1 i c ds \<noteq> None"
  using assms by (simp add: update_room_def)

lemma room_data_fields [simp]:
  "cat_slug (room_data sl t data sp) = sl" "cat_title (room_data sl t data sp) = t"
  by (simp_all add: room_data_def)

text \<open>
  Counterexample to claim C5 as stated: an update that submits two images but renames the
  room to a title whose slug another category has is answered with 500 and leaves the room
  with no image row; an update that submits no image and has no title is answered with 500
  and leaves the room's one image row in place.
\<close>

theorem update_image_count_counterexample:
  "length (case rp_images rename_to_suite of None \<Rightarrow> [] | Some xs \<Rightarrow> xs) = 2
   \<and> status (reply (rooms_PUT True DeleteSucceeds (Some rename_to_suite) two_rooms_db)) = 500
   \<and> images_of (db_after (rooms_PUT True DeleteSucceeds (Some rename_to_suite) two_rooms_db)) 1 = []
   \<and> rp_images untitled_edit = Some []
   \<and> status (reply (rooms_PUT True DeleteSucceeds (Some untitled_edit) hotel_db)) = 500
   \<and> images_of (db_after (rooms_PUT True DeleteSucceeds (Some untitled_edit) hotel_db)) 1
     = [image_k1]"
  by code_simp

text \<open>
  Claim C5, amended. For every update of an existing room whose payload has a title and
  \<open>n\<close> image descriptors, \<open>n = 0\<close> included, the room never has more than \<open>n\<close> image
  rows afterwards; when the update is answered with 200, which it is whenever no other
  category has the new slug, the room has exactly \<open>n\<close> image rows, built from the
  descriptors in submission order, the \<open>k\<close>-th captioned with the title, \<^verbatim>\<open> - Image \<close> and
  \<open>k\<close>.
\<close>

theorem update_replaces_images:
  assumes "findUnique_category db i = Some c" "i \<noteq> 0" "rp_id data = Some i"
    "rp_title data = Some t"
    and ds: "ds = (case rp_images data of None \<Rightarrow> [] | Some xs \<Rightarrow> xs)"
  shows "length (images_of (db_after (rooms_PUT s st (Some data) db)) i) \<le> length ds
         \<and> (status (reply (rooms_PUT s st (Some data) db)) = 200 \<longrightarrow>
              images_of (db_after (rooms_PUT s st (Some data) db)) i
                = image_rows (next_image_id db) i t ds
              \<and> length (images_of (db_after (rooms_PUT s st (Some data) db)) i) = length ds
              \<and> (\<forall>k < length ds.
                    img_caption (images_of (db_after (rooms_PUT s st (Some data) db)) i ! k)
                      = Some (t @ '' - Image '' @ string_of_nat (k + 1))
                    \<and> img_url (images_of (db_after (rooms_PUT s st (Some data) db)) i ! k)
                      = d_url (ds ! k)
                    \<and> img_publicId (images_of (db_after (rooms_PUT s st (Some data) db)) i ! k)
                      = Some (d_publicId (ds ! k))))
         \<and> (\<not> list_ex (\<lambda>r. cat_slug r = slugify t \<and> cat_id r \<noteq> i) (categories db) \<longrightarrow>
              status (reply (rooms_PUT s st (Some data) db)) = 200)"
proof -
  let ?db1 = "deleteMany_images db i"
  let ?u = "update_room ?db1 i (room_data (slugify t) t data (cat_specs c)) ds"
  have sub: "submitted_images data = ds"
    by (simp add: submitted_images_def ds)
  note put = rooms_PUT_existing[OF assms(1-4), of s st, unfolded sub]
  have slug: "slug_in_use db (slugify t) (Some i)
      = list_ex (\<lambda>r. cat_slug r = slugify t \<and> cat_id r \<noteq> i) (categories db)"
    by (simp add: slug_in_use_def)
  show ?thesis
  proof (cases ?u)
    case None
    then have out: "db_after (rooms_PUT s st (Some data) db) = ?db1"
      and st: "status (reply (rooms_PUT s st (Some data) db)) = 500"
      using put by (simp_all add: Let_def db_after_def reply_def json_error_def)
    have "slug_in_use db (slugify t) (Some i)"
      using None update_room_succeeds[of ?db1 i c "room_data (slugify t) t data (cat_specs c)" ds]
        assms(1) by (auto simp: find_deleteMany slug_deleteMany)
    with out st show ?thesis
      by (simp add: images_of_deleteMany slug)
  next
    case (Some db2)
    then have out: "db_after (rooms_PUT s st (Some data) db) = db2"
      and st: "status (reply (rooms_PUT s st (Some data) db)) = 200"
      using put by (simp_all add: Let_def db_after_def reply_def)
    have nid: "next_image_id ?db1 = next_image_id db"
      by (simp add: deleteMany_images_def)
    have rows: "images_of db2 i = image_rows (next_image_id db) i t ds"
      using images_of_update_room[OF Some] by (simp add: images_of_deleteMany nid)
    show ?thesis
      unfolding out st rows by (simp add: image_rows_length image_rows_nth)
  qed
qed

theorem update_replaces_images_witness:
  "status (reply (rooms_PUT False DeleteSucceeds (Some edit_two_images) hotel_db)) = 200
   \<and> length (images_of (db_after (rooms_PUT False DeleteSucceeds (Some edit_two_images) hotel_db)) 1) = 2
   \<and> map img_caption
         (images_of (db_after (rooms_PUT False DeleteSucceeds (Some edit_two_images) hotel_db)) 1)
       = [Some ''Deluxe Room - Image 1'', Some ''Deluxe Room - Image 2'']
   \<and> map img_url
         (images_of (db_after (rooms_PUT False DeleteSucceeds (Some edit_two_images) hotel_db)) 1)
       = [''u2'', ''u3'']
   \<and> images_of (db_after (rooms_PUT False DeleteSucceeds (Some edit_deluxe) hotel_db)) 1 = []"
proof -
  let ?ds = "[\<lparr> d_url = ''u2'', d_publicId = ''k2'' \<rparr>, \<lparr> d_url = ''u3'', d_publicId = ''k3'' \<rparr>]"
  have h1: "findUnique_category hotel_db 1 = Some deluxe"
    by (simp add: findUnique_category_def hotel_db_def deluxe_def)
  have h2: "(1::int) \<noteq> 0"
    by simp
  have h3: "rp_id edit_two_images = Some 1" "rp_id edit_deluxe = Some 1"
    and h4: "rp_title edit_two_images = Some ''Deluxe Room''"
      "rp_title edit_deluxe = Some ''Deluxe Room''"
    by (simp_all add: edit_two_images_def edit_deluxe_def)
  have d2: "?ds = (case rp_images edit_two_images of None \<Rightarrow> [] | Some xs \<Rightarrow> xs)"
    by (simp add: edit_two_images_def edit_deluxe_def)
  have d0: "[] = (case rp_images edit_deluxe of None \<Rightarrow> [] | Some xs \<Rightarrow> xs)"
    by (simp add: edit_deluxe_def)
  have free: "\<not> list_ex (\<lambda>r. cat_slug r = slugify ''Deluxe Room'' \<and> cat_id r \<noteq> 1)
                  (categories hotel_db)"
    by code_simp
  have caps: "map img_caption (image_rows (next_image_id hotel_db) 1 ''Deluxe Room'' ?ds)
      = [Some ''Deluxe Room - Image 1'', Some ''Deluxe Room - Image 2'']"
    by code_simp
  have urls: "map img_url (image_rows (next_image_id hotel_db) 1 ''Deluxe Room'' ?ds)
      = [''u2'', ''u3'']"
    by code_simp
  note two = update_replaces_images[OF h1 h2 h3(1) h4(1) d2, of False DeleteSucceeds]
  note none = update_replaces_images[OF h1 h2 h3(2) h4(2) d0, of False DeleteSucceeds]
  from two free
  have st: "status (reply (rooms_PUT False DeleteSucceeds (Some edit_two_images) hotel_db)) = 200"
    by blast
  with two
  have rows: "images_of (db_after (rooms_PUT False DeleteSucceeds (Some edit_two_images) hotel_db)) 1
      = image_rows (next_image_id hotel_db) 1 ''Deluxe Room'' ?ds"
    by blast
  from none
  have zero: "images_of (db_after (rooms_PUT False DeleteSucceeds (Some edit_deluxe) hotel_db)) 1 = []"
    by simp
  show ?thesis
    unfolding rows caps urls st zero by (simp add: image_rows_length)
qed

section \<open>The session guard\<close>

lemma guarded_handlers_reject:
  "categories_PUT sch False idp req1 db = (json_error 401 ''Unauthorized'', db, [])"
  "categories_DELETE False st idp db = (json_error 401 ''Unauthorized'', db, [])"
  "gallery_POST gsch False up req2 db = (json_error 401 ''Unauthorized'', db, [])"
  "gallery_PUT gsch False st idp req3 db = (json_error 401 ''Unauthorized'', db, [])"
  "gallery_DELETE False st idp db = (json_error 401 ''Unauthorized'', db, [])"
  by (simp_all add: categories_PUT_def categories_DELETE_def gallery_POST_def gallery_PUT_def
      gallery_DELETE_def requireAdmin_def admin_catch_def)

lemma rooms_handlers_ignore_session:
  "rooms_POST s req db = rooms_POST s' req db"
  "rooms_PUT s st req db = rooms_PUT s' st req db"
  "rooms_DELETE s st idp db = rooms_DELETE s' st idp db"
  by (simp_all add: rooms_POST_def rooms_PUT_def rooms_DELETE_def)

text \<open>
  Claim C1 on the rooms route. Called without a valid admin session, POST creates the room
  and answers 201, PUT replaces the room's images and answers 200, and DELETE removes the
  room and answers 200: the route's handlers never call the session guard, which the
  category and gallery handlers call first.
\<close>

theorem rooms_route_unguarded:
  "status (reply (rooms_POST False (Some create_deluxe) empty_db)) = 201
   \<and> map cat_slug (categories (db_after (rooms_POST False (Some create_deluxe) empty_db)))
       = [''deluxe-room'']
   \<and> map img_caption (images (db_after (rooms_POST False (Some create_deluxe) empty_db)))
       = [Some ''Deluxe Room - Image 1'']
   \<and> status (reply (rooms_PUT False DeleteSucceeds (Some edit_deluxe) hotel_db)) = 200
   \<and> images (db_after (rooms_PUT False DeleteSucceeds (Some edit_deluxe) hotel_db)) = []
   \<and> status (reply (rooms_DELETE False DeleteSucceeds (IdInt 1) hotel_db)) = 200
   \<and> categories (db_after (rooms_DELETE False DeleteSucceeds (IdInt 1) hotel_db)) = []"
  by code_simp

section \<open>Deleting a category\<close>

text \<open>
  Counterexample to claim C2 as stated: DELETE on the rooms route hands the file keys to
  the storage service before it deletes the category in the database.
\<close>

theorem rooms_delete_storage_first:
  "effects (rooms_DELETE True DeleteThrows (IdInt 1) hotel_db)
   = [DeleteFiles [''k1'', ''VID1''], DbDeleteCategory 1]"
  by code_simp


lemma delete_category_gone:
  assumes "delete_category db i = Some db'"
  shows "findUnique_category db' i = None" "images_of db' i = []" "prices_of db' i = []"
  using assms
  by (auto simp: delete_category_def findUnique_category_def images_of_def prices_of_def
      find_None_iff filter_empty_conv split: option.splits)

lemma categories_DELETE_existing:
  assumes "findUnique_category db i = Some c"
  shows "\<exists>db'. delete_category db i = Some db' \<and>
     categories_DELETE True st (Some i) db =
       (\<lparr> status = 200, body = SuccessMessage ''Category deleted successfully'' \<rparr>, db',
        DbDeleteCategory i
        # delete_files_call (image_keys (images_of db i) @ category_video_keys (cat_videoUrl c)))"
  using assms
  by (simp add: categories_DELETE_def requireAdmin_def delete_category_def Let_def)

text \<open>
  Claim C2, amended. For every existing category, both delete handlers remove the category
  row with all its image and price rows and answer with success, whatever the storage service
  does. DELETE on the category route deletes in the database first and issues the storage
  deletion after it; DELETE on the rooms route issues the storage deletion first and
  deletes in the database after it. The outcome of the storage call changes neither the
  response nor the database.
\<close>

theorem category_delete_final:
  assumes "findUnique_category db i = Some c"
  shows "reply (categories_DELETE True st (Some i) db)
           = \<lparr> status = 200, body = SuccessMessage ''Category deleted successfully'' \<rparr>
         \<and> reply (rooms_DELETE s st (IdInt i) db)
           = \<lparr> status = 200, body = MessageBody ''Room deleted successfully'' \<rparr>
         \<and> effects (categories_DELETE True st (Some i) db)
           = DbDeleteCategory i
             # delete_files_call
                 (image_keys (images_of db i) @ category_video_keys (cat_videoUrl c))
         \<and> effects (rooms_DELETE s st (IdInt i) db)
           = delete_files_call
               (image_keys (images_of db i) @ old_video_keys_delete (cat_videoUrl c))
             @ [DbDeleteCategory i]
         \<and> db_after (rooms_DELETE s st (IdInt i) db)
           = db_after (categories_DELETE True st (Some i) db)
         \<and> findUnique_category (db_after (categories_DELETE True st (Some i) db)) i = None
         \<and> images_of (db_after (categories_DELETE True st (Some i) db)) i = []
         \<and> prices_of (db_after (categories_DELETE True st (Some i) db)) i = []
         \<and> categories_DELETE True st (Some i) db
           = categories_DELETE True DeleteSucceeds (Some i) db
         \<and> rooms_DELETE s st (IdInt i) db = rooms_DELETE s DeleteSucceeds (IdInt i) db"
proof -
  from categories_DELETE_existing[OF assms, of st] obtain db1 where
    d1: "delete_category db i = Some db1" and
    c: "categories_DELETE True st (Some i) db =
       (\<lparr> status = 200, body = SuccessMessage ''Category deleted successfully'' \<rparr>, db1,
        DbDeleteCategory i
        # delete_files_call (image_keys (images_of db i) @ category_video_keys (cat_videoUrl c)))"
    by blast
  from rooms_DELETE_existing[OF assms, of s st] d1 have
    r: "rooms_DELETE s st (IdInt i) db =
       (\<lparr> status = 200, body = MessageBody ''Room deleted successfully'' \<rparr>, db1,
        delete_files_call (image_keys (images_of db i) @ old_video_keys_delete (cat_videoUrl c))
        @ [DbDeleteCategory i])"
    by simp
  have indep: "categories_DELETE True st (Some i) db
           = categories_DELETE True DeleteSucceeds (Some i) db"
    "rooms_DELETE s st (IdInt i) db = rooms_DELETE s DeleteSucceeds (IdInt i) db"
    by (simp_all add: categories_DELETE_def rooms_DELETE_def)
  have gone: "findUnique_category (db_after (categories_DELETE True st (Some i) db)) i = None"
    "images_of (db_after (categories_DELETE True st (Some i) db)) i = []"
    "prices_of (db_after (categories_DELETE True st (Some i) db)) i = []"
    using delete_category_gone[OF d1] by (simp_all add: c db_after_def)
  have shape: "reply (categories_DELETE True st (Some i) db)
           = \<lparr> status = 200, body = SuccessMessage ''Category deleted successfully'' \<rparr>"
    "reply (rooms_DELETE s st (IdInt i) db)
           = \<lparr> status = 200, body = MessageBody ''Room deleted successfully'' \<rparr>"
    "effects (categories_DELETE True st (Some i) db)
           = DbDeleteCategory i
             # delete_files_call
                 (image_keys (images_of db i) @ category_video_keys (cat_videoUrl c))"
    "effects (rooms_DELETE s st (IdInt i) db)
           = delete_files_call
               (image_keys (images_of db i) @ old_video_keys_delete (cat_videoUrl c))
             @ [DbDeleteCategory i]"
    "db_after (rooms_DELETE s st (IdInt i) db)
           = db_after (categories_DELETE True st (Some i) db)"
    by (simp_all add: c r reply_def effects_def db_after_def)
  from shape gone indep show ?thesis
    by blast
qed

theorem category_delete_final_witness:
  "status (reply (categories_DELETE True DeleteThrows (Some 1) hotel_db)) = 200
   \<and> status (reply (rooms_DELETE False DeleteThrows (IdInt 1) hotel_db)) = 200
   \<and> effects (categories_DELETE True DeleteThrows (Some 1) hotel_db)
     = [DbDeleteCategory 1, DeleteFiles [''k1'', ''VID1'']]
   \<and> effects (rooms_DELETE False DeleteThrows (IdInt 1) hotel_db)
     = [DeleteFiles [''k1'', ''VID1''], DbDeleteCategory 1]
   \<and> prices_of (db_after (categories_DELETE True DeleteThrows (Some 1) hotel_db)) 1 = []
   \<and> images_of (db_after (categories_DELETE True DeleteThrows (Some 1) hotel_db)) 1 = []"
proof -
  have h: "findUnique_category hotel_db 1 = Some deluxe"
    by (simp add: findUnique_category_def hotel_db_def deluxe_def)
  have e1: "delete_files_call
       (image_keys (images_of hotel_db 1) @ category_video_keys (cat_videoUrl deluxe))
       = [DeleteFiles [''k1'', ''VID1'']]"
    by code_simp
  have e2: "delete_files_call
       (image_keys (images_of hotel_db 1) @ old_video_keys_delete (cat_videoUrl deluxe))
       = [DeleteFiles [''k1'', ''VID1'']]"
    by code_simp
  note main = category_delete_final[OF h, of DeleteThrows False, unfolded e1 e2]
  note c1 = main[THEN conjunct1]
  note r1 = main[THEN conjunct2]
  note c2 = r1[THEN conjunct1]
  note r2 = r1[THEN conjunct2]
  note c3 = r2[THEN conjunct1]
  note r3 = r2[THEN conjunct2]
  note c4 = r3[THEN conjunct1]
  note r5 = r3[THEN conjunct2, THEN conjunct2, THEN conjunct2]
  note c7 = r5[THEN conjunct1]
  note c8 = r5[THEN conjunct2, THEN conjunct1]
  show ?thesis
    by (simp add: c1 c2 c3 c4 c7 c8)
qed

section \<open>Category update: the price tiers\<close>

lemma update_category_prices:
  assumes "update_category db i p = Some db1"
  shows "prices db1 = prices db" "next_price_id db1 = next_price_id db"
  using assms by (auto simp: update_category_def split: option.splits if_splits)

lemma price_rows_length: "length (price_rows f i ps) = length ps"
  by (simp add: price_rows_def)

lemma price_rows_fields:
  "map price_hourlyHours (price_rows f i ps) = map pi_hourlyHours ps"
  "map price_rateCents (price_rows f i ps) = map pi_rateCents ps"
  by (auto simp: price_rows_def nth_enumerate_eq intro!: nth_equalityI)

lemma price_rows_owner: "filter (\<lambda>p. price_categoryId p = i) (price_rows f i ps) = price_rows f i ps"
  by (auto simp: price_rows_def filter_id_conv)

lemma prices_of_deleteMany: "prices_of (deleteMany_prices db i) i = []"
  by (simp add: prices_of_def deleteMany_prices_def filter_empty_conv)

lemma replace_prices_rows:
  assumes "replace_prices db1 i ps = Some db'"
  shows "prices_of db' i = price_rows (next_price_id db1) i (take 4 ps)"
proof (cases "take 4 ps = []")
  case True
  with assms have "db' = deleteMany_prices db1 i"
    by (simp add: replace_prices_def Let_def)
  with True show ?thesis
    by (simp add: prices_of_deleteMany price_rows_def)
next
  case False
  with assms have c: "createMany_prices (deleteMany_prices db1 i) i (take 4 ps) = Some db'"
    by (simp add: replace_prices_def Let_def)
  then have "prices db' = prices (deleteMany_prices db1 i)
      @ price_rows (next_price_id (deleteMany_prices db1 i)) i (take 4 ps)"
    by (auto simp: createMany_prices_def split: option.splits)
  moreover have "next_price_id (deleteMany_prices db1 i) = next_price_id db1"
    by (simp add: deleteMany_prices_def)
  ultimately show ?thesis
    using prices_of_deleteMany[of db1 i] by (simp add: prices_of_def price_rows_owner)
qed

lemma transaction_prices:
  assumes "category_transaction i parsed (PricesArray ps) db = Some db'"
  shows "prices_of db' i = price_rows (next_price_id db) i (take 4 ps)"
proof (cases parsed)
  case None
  with assms show ?thesis
    by (simp add: category_transaction_def replace_prices_rows)
next
  case (Some p)
  with assms obtain db1 where u: "update_category db i p = Some db1"
    and r: "replace_prices db1 i ps = Some db'"
    by (auto simp: category_transaction_def split: option.splits)
  from replace_prices_rows[OF r] update_category_prices(2)[OF u] show ?thesis
    by simp
qed

lemma json_error_status [simp]: "status (json_error n m) = n"
  by (simp add: json_error_def)

lemma admin_catch_status:
  "status (admin_catch m e) = (case e of Unauthorized \<Rightarrow> 401 | OtherError \<Rightarrow> 500)"
  by (simp add: admin_catch_def split: exn.splits)

lemma categories_PUT_ok:
  assumes "status (reply (categories_PUT sch vs (Some i) (Some b) db)) = 200"
  shows "\<exists>parsed db'. category_transaction i parsed (cb_prices b) db = Some db'
           \<and> categories_PUT sch vs (Some i) (Some b) db
             = (\<lparr> status = 200, body = CategoryData (category_result db' i) \<rparr>, db',
                [DbTransaction i])"
  using assms
  by (auto simp: categories_PUT_def requireAdmin_def reply_def Let_def admin_catch_status
      split: if_splits option.splits)

lemma category_result_prices:
  assumes "category_result db i = Some (c, pr, im)"
  shows "sorted (map price_hourlyHours pr)" "mset pr = mset (prices_of db i)"
  using assms
  by (auto simp: category_result_def prices_by_hours_def split: option.splits)

text \<open>
  Claim C6. Whenever an update of a category that submits \<open>n\<close> price tiers is carried out
  (it is answered with 200), the category has exactly \<open>min n 4\<close> price rows afterwards,
  built from the first four submitted tiers in submission order, and the answer returns
  these rows ordered by \<^verbatim>\<open>hourlyHours\<close> ascending.
\<close>

theorem price_replacement_truncates:
  assumes "cb_prices b = PricesArray ps"
    and "status (reply (categories_PUT sch vs (Some i) (Some b) db)) = 200"
  shows "prices_of (db_after (categories_PUT sch vs (Some i) (Some b) db)) i
           = price_rows (next_price_id db) i (take 4 ps)
         \<and> length (prices_of (db_after (categories_PUT sch vs (Some i) (Some b) db)) i)
           = min (length ps) 4
         \<and> map price_hourlyHours (prices_of (db_after (categories_PUT sch vs (Some i) (Some b) db)) i)
           = map pi_hourlyHours (take 4 ps)
         \<and> map price_rateCents (prices_of (db_after (categories_PUT sch vs (Some i) (Some b) db)) i)
           = map pi_rateCents (take 4 ps)
         \<and> body (reply (categories_PUT sch vs (Some i) (Some b) db))
           = CategoryData (category_result (db_after (categories_PUT sch vs (Some i) (Some b) db)) i)
         \<and> (\<forall>c pr im.
               category_result (db_after (categories_PUT sch vs (Some i) (Some b) db)) i
                 = Some (c, pr, im) \<longrightarrow>
               sorted (map price_hourlyHours pr)
               \<and> mset pr = mset (prices_of (db_after (categories_PUT sch vs (Some i) (Some b) db)) i)
               \<and> length pr = min (length ps) 4)"
proof -
  from categories_PUT_ok[OF assms(2)] assms(1) obtain parsed db' where
    t: "category_transaction i parsed (PricesArray ps) db = Some db'" and
    out: "categories_PUT sch vs (Some i) (Some b) db
             = (\<lparr> status = 200, body = CategoryData (category_result db' i) \<rparr>, db',
                [DbTransaction i])"
    by auto
  have rows: "prices_of db' i = price_rows (next_price_id db) i (take 4 ps)"
    by (rule transaction_prices[OF t])
  have len: "length (prices_of db' i) = min (length ps) 4"
    by (simp add: rows price_rows_length)
  have readback: "sorted (map price_hourlyHours pr) \<and> mset pr = mset (prices_of db' i)
      \<and> length pr = min (length ps) 4"
    if "category_result db' i = Some (c, pr, im)" for c pr im
  proof -
    note cr = category_result_prices[OF that]
    from cr(2) have "length pr = length (prices_of db' i)"
      by (rule mset_eq_length)
    with cr len show ?thesis by simp
  qed
  show ?thesis
    unfolding out db_after_def reply_def
    using rows len readback by (simp add: price_rows_fields)
qed

lemma price_only_update_succeeds:
  assumes "findUnique_category db i = Some c" "cleanCategoryData (cb_categoryData b) = []"
    "cb_prices b = PricesArray ps"
  shows "status (reply (categories_PUT sch True (Some i) (Some b) db)) = 200"
proof -
  have "findUnique_category (deleteMany_prices db i) i = Some c"
    using assms(1) by (simp add: findUnique_category_def deleteMany_prices_def)
  then have "replace_prices db i ps \<noteq> None"
    by (simp add: replace_prices_def createMany_prices_def Let_def)
  then show ?thesis
    using assms(2,3)
    by (auto simp: categories_PUT_def requireAdmin_def reply_def Let_def
        category_transaction_def)
qed

theorem price_replacement_truncates_witness:
  "status (reply (categories_PUT title_schema True (Some 1) (Some five_tiers) hotel_db)) = 200
   \<and> map price_hourlyHours
         (prices_of (db_after (categories_PUT title_schema True (Some 1) (Some five_tiers) hotel_db)) 1)
       = [24, 2, 12, 4]
   \<and> length (prices_of (db_after (categories_PUT title_schema True (Some 1) (Some five_tiers) hotel_db)) 1)
       = 4
   \<and> map price_hourlyHours
         (case body (reply (categories_PUT title_schema True (Some 1) (Some five_tiers) hotel_db)) of
            CategoryData (Some (c, pr, im)) \<Rightarrow> pr
          | _ \<Rightarrow> [])
       = [2, 4, 12, 24]"
proof -
  have h1: "cb_prices five_tiers
      = PricesArray [tier 24 9000, tier 2 1500, tier 12 6000, tier 4 2500, tier 6 3500]"
    by (simp add: five_tiers_def)
  have h2: "status (reply (categories_PUT title_schema True (Some 1) (Some five_tiers) hotel_db)) = 200"
    by code_simp
  have rb: "map price_hourlyHours
         (case body (reply (categories_PUT title_schema True (Some 1) (Some five_tiers) hotel_db)) of
            CategoryData (Some (c, pr, im)) \<Rightarrow> pr
          | _ \<Rightarrow> [])
       = [2, 4, 12, 24]"
    by code_simp
  note main = price_replacement_truncates[OF h1 h2]
  note m2 = main[THEN conjunct2, THEN conjunct1]
  note m3 = main[THEN conjunct2, THEN conjunct2, THEN conjunct1]
  show ?thesis
    using h2 rb m2 m3 by (simp add: tier_def)
qed

text \<open>
  Claim C9. For every update request on a category whose body has no \<^verbatim>\<open>prices\<close> array
  (the member is absent or not an array, or the body cannot be read), whatever the session,
  the id and the validator, the price rows after the request are the price rows before it.
\<close>

theorem prices_untouched_without_array:
  assumes "\<forall>b ps. req = Some b \<longrightarrow> cb_prices b \<noteq> PricesArray ps"
  shows "prices (db_after (categories_PUT sch vs idp req db)) = prices db
         \<and> prices_of (db_after (categories_PUT sch vs idp req db)) i = prices_of db i"
proof -
  have tx: "prices db' = prices db"
    if "category_transaction j parsed pf db = Some db'" "\<forall>ps. pf \<noteq> PricesArray ps"
    for j parsed pf db'
    using that update_category_prices(1)
    by (cases pf; cases parsed) (auto simp: category_transaction_def split: option.splits)
  have "prices (db_after (categories_PUT sch vs idp req db)) = prices db"
    using assms tx
    by (auto simp: categories_PUT_def db_after_def requireAdmin_def Let_def
        split: option.splits if_splits)
  then show ?thesis
    by (simp add: prices_of_def)
qed

theorem prices_untouched_without_array_witness:
  "status (reply (categories_PUT title_schema True (Some 1) (Some title_only) hotel_db)) = 200
   \<and> map cat_title (categories (db_after
         (categories_PUT title_schema True (Some 1) (Some title_only) hotel_db))) = [''Suite'']
   \<and> prices (db_after (categories_PUT title_schema True (Some 1) (Some title_only) hotel_db))
       = [price_24h]"
proof -
  have h: "\<forall>b ps. Some title_only = Some b \<longrightarrow> cb_prices b \<noteq> PricesArray ps"
    by (simp add: title_only_def)
  have a: "status (reply (categories_PUT title_schema True (Some 1) (Some title_only) hotel_db)) = 200"
    by code_simp
  have b: "map cat_title (categories (db_after
         (categories_PUT title_schema True (Some 1) (Some title_only) hotel_db))) = [''Suite'']"
    by code_simp
  from prices_untouched_without_array[OF h, of title_schema True "Some 1" hotel_db 1] a b
  show ?thesis
    by (simp add: hotel_db_def)
qed

section \<open>Gallery create: files that are not images\<close>

text \<open>
  Counterexample to claim C10 as stated: a multipart upload of a video file by a caller
  without a valid admin session is answered with 401, not 400.
\<close>

theorem gallery_unauthorized_video_upload:
  "status (reply (gallery_POST any_gallery_schema False (Uploaded ''u'' ''k'') video_upload hotel_db))
   = 401"
  by code_simp

text \<open>
  Claim C10, amended. For every multipart (non-JSON) gallery create request whose file has a
  MIME type that does not start with \<^verbatim>\<open>image/\<close>, the request fails with status 400 when the
  caller has a valid admin session and with status 401 otherwise; in both cases nothing is
  uploaded and nothing is written to the database.
\<close>

theorem gallery_multipart_non_image:
  assumes "\<not> is_json_request req" "gr_formData req = Some f" "gf_file f = Some file"
    "\<not> startsWith (f_type file) ''image/''"
  shows "gallery_POST sch vs up req db =
           (if vs then json_error 400 ''Only image files are allowed''
            else json_error 401 ''Unauthorized'', db, [])
         \<and> status (reply (gallery_POST sch vs up req db)) = (if vs then 400 else 401)
         \<and> db_after (gallery_POST sch vs up req db) = db
         \<and> effects (gallery_POST sch vs up req db) = []"
  using assms
  by (simp add: gallery_POST_def gallery_POST_form_def requireAdmin_def admin_catch_def
      reply_def db_after_def effects_def)

theorem gallery_multipart_non_image_witness:
  "gallery_POST any_gallery_schema True (Uploaded ''u'' ''k'') video_upload hotel_db
     = (json_error 400 ''Only image files are allowed'', hotel_db, [])
   \<and> status (reply (gallery_POST any_gallery_schema True (Uploaded ''u'' ''k'') video_upload hotel_db))
     = 400"
proof -
  let ?f = "\<lparr> gf_file = Some \<lparr> f_name = ''clip.mp4'', f_type = ''video/mp4'', f_size = 1000 \<rparr>,
              gf_category = Some ''Rooms'', gf_caption = None,
              gf_categoryId = None, gf_url = None, gf_publicId = None \<rparr>"
  let ?file = "\<lparr> f_name = ''clip.mp4'', f_type = ''video/mp4'', f_size = 1000 \<rparr>"
  have h1: "\<not> is_json_request video_upload"
    by code_simp
  have h2: "gr_formData video_upload = Some ?f"
    by (simp add: video_upload_def)
  have h3: "gf_file ?f = Some ?file"
    by simp
  have h4: "\<not> startsWith (f_type ?file) ''image/''"
    by (simp add: startsWith_def)
  from gallery_multipart_non_image[OF h1 h2 h3 h4, of any_gallery_schema True "Uploaded ''u'' ''k''" hotel_db]
  show ?thesis
    by (simp add: reply_def)
qed

section \<open>The fetch wrapper\<close>

lemma fetch_count_rounds:
  "fetch_count (retry_rounds d a n @ [Fetch k, ClearAbortTimer]) = n + 1"
  by (induction n arbitrary: a) (simp_all add: fetch_count_def)

lemma attempt_loop_shape:
  "a \<le> r \<Longrightarrow>
   \<exists>k. a \<le> k \<and> k \<le> r \<and> (\<forall>j. a \<le> j \<and> j < k \<longrightarrow> retryable (env j))
       \<and> (\<not> retryable (env k) \<or> k = r)
       \<and> attempt_loop r d env le a
           = (outcome_result (env k), retry_rounds d a (k - a) @ [Fetch k, ClearAbortTimer])"
proof (induction r d env le a rule: attempt_loop.induct)
  case (1 r d env le a)
  show ?case
  proof (cases "env a")
    case (Resolves resp)
    then have "attempt_loop r d env le a = (outcome_result (env a), [Fetch a, ClearAbortTimer])"
      using "1.prems" by (subst attempt_loop.simps) (simp add: outcome_result_def)
    moreover have "\<not> retryable (env a)"
      using Resolves by (simp add: retryable_def)
    ultimately show ?thesis
      using "1.prems" by (intro exI[of _ a]) auto
  next
    case (Rejects x)
    show ?thesis
    proof (cases "err_name (as_error x) = ''AbortError'' \<or> a = r")
      case True
      then have "attempt_loop r d env le a = (outcome_result (env a), [Fetch a, ClearAbortTimer])"
        using "1.prems" Rejects
        by (subst attempt_loop.simps) (auto simp: outcome_result_def Let_def)
      moreover have "\<not> retryable (env a) \<or> a = r"
        using Rejects True by (auto simp: retryable_def is_abort_def)
      ultimately show ?thesis
        using "1.prems" by (intro exI[of _ a]) auto
    next
      case False
      then have lt: "a + 1 \<le> r"
        using "1.prems" by simp
      have ra: "retryable (env a)"
        using Rejects False by (simp add: retryable_def is_abort_def)
      from "1.IH"[OF "1.prems" Rejects refl False lt]
      obtain k where k: "a + 1 \<le> k" "k \<le> r"
        "\<forall>j. a + 1 \<le> j \<and> j < k \<longrightarrow> retryable (env j)"
        "\<not> retryable (env k) \<or> k = r"
        "attempt_loop r d env (Some (as_error x)) (a + 1)
           = (outcome_result (env k), retry_rounds d (a + 1) (k - (a + 1)) @ [Fetch k, ClearAbortTimer])"
        by blast
      have all: "\<forall>j. a \<le> j \<and> j < k \<longrightarrow> retryable (env j)"
      proof (intro allI impI)
        fix j assume "a \<le> j \<and> j < k"
        then show "retryable (env j)"
          using k(3) ra by (cases "j = a") auto
      qed
      have ka: "k - a = Suc (k - (a + 1))"
        using k(1) by simp
      have "attempt_loop r d env le a
           = (outcome_result (env k), retry_rounds d a (k - a) @ [Fetch k, ClearAbortTimer])"
        using "1.prems" Rejects False k(5) unfolding ka
        by (subst attempt_loop.simps) (simp add: Let_def)
      with k(1,2,4) all show ?thesis
        by (intro exI[of _ k]) simp
    qed
  qed
qed


text \<open>
  Claim C8. For all options and all outcomes of the calls of \<^verbatim>\<open>fetch\<close>, the wrapper stops
  at some attempt \<open>k\<close> not above \<open>retries\<close>, so it makes at most \<open>retries + 1\<close> attempts.
  Every attempt before \<open>k\<close> was rejected with an error other than an abort and is followed
  by one wait of \<open>retryDelay\<close>, the same each time. Attempt \<open>k\<close> resolved, or was rejected
  with an abort error, or is the final attempt; its response is returned, or its error is
  thrown, with nothing but the clearing of the abort timer after it. The abort timer is set
  once, to 10000 milliseconds when no timeout is given.
\<close>

theorem fetch_retry_policy:
  "\<exists>k. k \<le> retries_of opts
       \<and> fetchWithTimeout opts env
           = (outcome_result (env k),
              SetAbortTimer (timeout_of opts)
              # retry_rounds (retryDelay_of opts) 0 k @ [Fetch k, ClearAbortTimer])
       \<and> (\<forall>j. j < k \<longrightarrow> retryable (env j))
       \<and> (\<not> retryable (env k) \<or> k = retries_of opts)
       \<and> fetch_count (snd (fetchWithTimeout opts env)) = k + 1
       \<and> fetch_count (snd (fetchWithTimeout opts env)) \<le> retries_of opts + 1
       \<and> timeout_of (opts\<lparr> fo_timeout := None \<rparr>) = 10000"
proof -
  from attempt_loop_shape[of 0 "retries_of opts" env "retryDelay_of opts" None]
  obtain k where k: "k \<le> retries_of opts" "\<forall>j. j < k \<longrightarrow> retryable (env j)"
    "\<not> retryable (env k) \<or> k = retries_of opts"
    "attempt_loop (retries_of opts) (retryDelay_of opts) env None 0
       = (outcome_result (env k),
          retry_rounds (retryDelay_of opts) 0 k @ [Fetch k, ClearAbortTimer])"
    by auto
  have f: "fetchWithTimeout opts env
           = (outcome_result (env k),
              SetAbortTimer (timeout_of opts)
              # retry_rounds (retryDelay_of opts) 0 k @ [Fetch k, ClearAbortTimer])"
    by (simp add: fetchWithTimeout_def k(4))
  have c: "fetch_count (snd (fetchWithTimeout opts env)) = k + 1"
    using fetch_count_rounds[of "retryDelay_of opts" 0 k k]
    by (simp add: f fetch_count_def)
  have t: "timeout_of (opts\<lparr> fo_timeout := None \<rparr>) = 10000"
    by (simp add: timeout_of_def)
  show ?thesis
    using k(1,2,3) f c t by (intro exI[of _ k]) simp
qed

theorem fetch_retry_policy_witness:
  "fetchWithTimeout three_retries flaky
     = (Inr ''ok'', [SetAbortTimer 10000, Fetch 0, Sleep 500, Fetch 1, Sleep 500, Fetch 2,
                     ClearAbortTimer])
   \<and> fetchWithTimeout three_retries aborting
     = (Inl \<lparr> err_name = ''AbortError'', err_message = ''aborted'' \<rparr>,
        [SetAbortTimer 10000, Fetch 0, Sleep 500, Fetch 1, ClearAbortTimer])
   \<and> (\<exists>k. k \<le> 3 \<and> fetch_count (snd (fetchWithTimeout three_retries flaky)) = k + 1)"
proof -
  have r: "retries_of three_retries = 3"
    by (simp add: retries_of_def three_retries_def)
  have a: "fetchWithTimeout three_retries flaky
     = (Inr ''ok'', [SetAbortTimer 10000, Fetch 0, Sleep 500, Fetch 1, Sleep 500, Fetch 2,
                     ClearAbortTimer])"
    by code_simp
  have b: "fetchWithTimeout three_retries aborting
     = (Inl \<lparr> err_name = ''AbortError'', err_message = ''aborted'' \<rparr>,
        [SetAbortTimer 10000, Fetch 0, Sleep 500, Fetch 1, ClearAbortTimer])"
    by code_simp
  from fetch_retry_policy[of three_retries flaky]
  have "\<exists>k. k \<le> 3 \<and> fetch_count (snd (fetchWithTimeout three_retries flaky)) = k + 1"
    unfolding r by blast
  with a b show ?thesis
    by blast
qed


end
